theory Spec2Isabelle
  imports Main "HOL-Library.Word"
begin

section \<open>Values, errors and the collaborators of app.js\<close>

text \<open>
  \<open>app.js\<close> keeps a key pair and a contact list in \<open>localStorage\<close> (as JSON text),
  seals messages with libsodium's \<open>crypto_box_easy\<close> and exchanges them as
  colon-joined base64 tokens.  The functions and button handlers of the file are
  embedded below.  Everything the file calls but does not define (libsodium, the
  random generator, \<open>JSON\<close>, the quota of \<open>localStorage\<close>) is a field of the
  record \<open>env\<close>: the program is verified for every environment, and the contracts
  that a theorem needs from an environment are stated as its hypotheses.
\<close>

type_synonym bytes = "8 word list"

text \<open>
  What \<open>JSON.parse\<close> can return.  A number is kept as the text JavaScript prints
  for it, so \<open>JNum ''0''\<close> is the only falsy number.  A value that may be
  \<open>undefined\<close> is a \<open>json option\<close>, with \<open>None\<close> for \<open>undefined\<close>.
\<close>

datatype json =
    JNull
  | JBool bool
  | JNum string
  | JStr string
  | JArr "json list"
  | JObj "(string \<times> json) list"

text \<open>
  Exceptions.  \<open>Error msg\<close> is \<open>throw new Error(msg)\<close> of app.js itself;
  \<open>TypeError\<close> is raised by the JavaScript runtime (a property of \<open>null\<close> or
  \<open>undefined\<close>, a method that does not exist), \<open>SyntaxError\<close> by \<open>JSON.parse\<close>,
  \<open>SodiumError\<close> by any call into libsodium, \<open>QuotaExceededError\<close> by
  \<open>localStorage.setItem\<close>.
\<close>

datatype error =
    Error string
  | TypeError
  | SyntaxError
  | SodiumError
  | QuotaExceededError

text \<open>
  The collaborators.  \<open>from_base64\<close>, \<open>to_base64\<close>, \<open>from_string\<close>, \<open>to_string\<close>,
  \<open>crypto_box_easy\<close> and \<open>crypto_box_open_easy\<close> are the functions of libsodium
  that app.js calls, with \<open>None\<close> where the call raises an exception.
  \<open>crypto_box_keypair\<close> is given by its two steps: a private key of
  \<open>crypto_box_SECRETKEYBYTES\<close> random bytes, and \<open>crypto_scalarmult_base\<close> of it
  as the public key.  \<open>entropy\<close> is the tape the random generator reads.
  \<open>JSON_parse\<close> returns \<open>None\<close> where \<open>JSON.parse\<close> raises its SyntaxError.
  \<open>trim\<close> is \<open>String.prototype.trim\<close>.
  \<open>storage_full st k v\<close> says that \<open>localStorage\<close> with content \<open>st\<close> has no room
  to store \<open>v\<close> under \<open>k\<close>.
\<close>

record env =
  from_base64 :: "string \<Rightarrow> bytes option"
  to_base64 :: "bytes \<Rightarrow> string"
  from_string :: "string \<Rightarrow> bytes"
  to_string :: "bytes \<Rightarrow> string option"
  crypto_box_NONCEBYTES :: nat
  crypto_box_SECRETKEYBYTES :: nat
  crypto_scalarmult_base :: "bytes \<Rightarrow> bytes"
  crypto_box_easy :: "bytes \<Rightarrow> bytes \<Rightarrow> bytes \<Rightarrow> bytes \<Rightarrow> bytes option"
  crypto_box_open_easy :: "bytes \<Rightarrow> bytes \<Rightarrow> bytes \<Rightarrow> bytes \<Rightarrow> bytes option"
  entropy :: "nat \<Rightarrow> 8 word"
  JSON_parse :: "string \<Rightarrow> json option"
  JSON_stringify :: "json \<Rightarrow> string"
  trim :: "string \<Rightarrow> string"
  storage_full :: "(string \<rightharpoonup> string) \<Rightarrow> string \<Rightarrow> string \<Rightarrow> bool"

text \<open>
  The state of a device: the content of \<open>localStorage\<close> and the number of bytes
  already drawn from the random generator.  The generator is an entropy tape
  (\<open>entropy E\<close>); a draw reads the next cells and never returns to a cell.
\<close>

record world =
  storage :: "string \<rightharpoonup> string"
  drawn :: nat

definition randombytes_buf :: "env \<Rightarrow> nat \<Rightarrow> world \<Rightarrow> bytes \<times> world" where
  "randombytes_buf E n w =
     (map (entropy E) [drawn w ..< drawn w + n], w\<lparr>drawn := drawn w + n\<rparr>)"

definition setItem ::
  "env \<Rightarrow> string \<Rightarrow> string \<Rightarrow> (string \<rightharpoonup> string) \<Rightarrow> error + (string \<rightharpoonup> string)" where
  "setItem E k v st = (if storage_full E st k v then Inl QuotaExceededError else Inr (st(k \<mapsto> v)))"

subsection \<open>The JavaScript operations the program applies to parsed values\<close>

text \<open>\<open>!v\<close> is \<open>\<not> truthy v\<close>.\<close>

fun truthy :: "json \<Rightarrow> bool" where
  "truthy JNull = False"
| "truthy (JBool b) = b"
| "truthy (JNum s) = (s \<noteq> ''0'')"
| "truthy (JStr s) = (s \<noteq> [])"
| "truthy (JArr xs) = True"
| "truthy (JObj kvs) = True"

text \<open>
  \<open>v.k\<close> for the keys the program reads (\<open>publicKey\<close>, \<open>privateKey\<close>, \<open>name\<close>):
  a TypeError on \<open>null\<close> and \<open>undefined\<close>, the member of an object, and
  \<open>undefined\<close> on every other value.
\<close>

fun get_prop :: "json option \<Rightarrow> string \<Rightarrow> error + json option" where
  "get_prop None k = Inl TypeError"
| "get_prop (Some JNull) k = Inl TypeError"
| "get_prop (Some (JObj kvs)) k = Inr (map_of kvs k)"
| "get_prop (Some v) k = Inr None"

fun show_nat :: "nat \<Rightarrow> string" where
  "show_nat n =
     (if n < 10 then [''0123456789'' ! n]
      else show_nat (n div 10) @ [''0123456789'' ! (n mod 10)])"

text \<open>\<open>v[i]\<close> for the index \<open>i\<close> that the recipient selector holds.\<close>

fun js_index :: "json \<Rightarrow> nat \<Rightarrow> error + json option" where
  "js_index JNull i = Inl TypeError"
| "js_index (JArr xs) i = Inr (if i < length xs then Some (xs ! i) else None)"
| "js_index (JStr s) i = Inr (if i < length s then Some (JStr [s ! i]) else None)"
| "js_index (JObj kvs) i = Inr (map_of kvs (show_nat i))"
| "js_index v i = Inr None"

text \<open>\<open>v.push(x)\<close>: only an array has the method.\<close>

fun js_push :: "json \<Rightarrow> json \<Rightarrow> error + json" where
  "js_push (JArr xs) x = Inr (JArr (xs @ [x]))"
| "js_push v x = Inl TypeError"

fun join_comma :: "string list \<Rightarrow> string" where
  "join_comma [] = []"
| "join_comma [s] = s"
| "join_comma (s # t # ss) = s @ '','' @ join_comma (t # ss)"

text \<open>The conversions of the elements of an array, up to the first that raises.\<close>

fun collect :: "(error + string) list \<Rightarrow> error + string list" where
  "collect [] = Inr []"
| "collect (Inl e # rs) = Inl e"
| "collect (Inr s # rs) = (case collect rs of Inl e \<Rightarrow> Inl e | Inr ss \<Rightarrow> Inr (s # ss))"

text \<open>
  The text a template literal \<open>`${v}`\<close> inserts.  An array is joined with commas,
  a \<open>null\<close> element giving the empty text.  A parsed object has no callable
  \<open>toString\<close> of its own: with an own member of that name the conversion raises a
  TypeError, without one it is the text of \<open>Object.prototype.toString\<close>.
\<close>

fun js_to_string :: "json \<Rightarrow> error + string" where
  "js_to_string JNull = Inr ''null''"
| "js_to_string (JBool b) = Inr (if b then ''true'' else ''false'')"
| "js_to_string (JNum s) = Inr s"
| "js_to_string (JStr s) = Inr s"
| "js_to_string (JArr xs) =
     (case collect (map (\<lambda>x. if x = JNull then Inr [] else js_to_string x) xs) of
        Inl e \<Rightarrow> Inl e
      | Inr ss \<Rightarrow> Inr (join_comma ss))"
| "js_to_string (JObj kvs) =
     (case map_of kvs ''toString'' of
        None \<Rightarrow> Inr ''[object Object]''
      | Some v \<Rightarrow> Inl TypeError)"

definition template :: "json option \<Rightarrow> error + string" where
  "template v = (case v of None \<Rightarrow> Inr ''undefined'' | Some x \<Rightarrow> js_to_string x)"

text \<open>\<open>s.split(sep)\<close> for a one-character separator: the empty string gives one empty part.\<close>

fun js_split :: "char \<Rightarrow> string \<Rightarrow> string list" where
  "js_split sep [] = [[]]"
| "js_split sep (c # cs) =
     (if c = sep then [] # js_split sep cs
      else (case js_split sep cs of
              [] \<Rightarrow> [[c]]
            | p # ps \<Rightarrow> (c # p) # ps))"

text \<open>
  \<open>sodium.from_base64(x)\<close> applied to a value read from storage: the wrapper raises
  on anything that is not a string, and on a string that is not base64.
\<close>

definition sodium_from_base64 :: "env \<Rightarrow> json option \<Rightarrow> error + bytes" where
  "sodium_from_base64 E x =
     (case x of
        Some (JStr s) \<Rightarrow> (case from_base64 E s of None \<Rightarrow> Inl SodiumError | Some b \<Rightarrow> Inr b)
      | _ \<Rightarrow> Inl SodiumError)"

section \<open>The functions of app.js\<close>

subsection \<open>Key store\<close>

text \<open>
  \<open>generateKeyPair\<close>: \<open>crypto_box_keypair\<close> draws the private key from the random
  generator and derives the public key from it; both are returned as base64 text.
\<close>

definition keys_object :: "string \<Rightarrow> string \<Rightarrow> json" where
  "keys_object publicKey privateKey =
     JObj [(''publicKey'', JStr publicKey), (''privateKey'', JStr privateKey)]"

definition generateKeyPair :: "env \<Rightarrow> world \<Rightarrow> json \<times> world" where
  "generateKeyPair E w =
     (case randombytes_buf E (crypto_box_SECRETKEYBYTES E) w of
        (sk, w') \<Rightarrow>
          (keys_object (to_base64 E (crypto_scalarmult_base E sk)) (to_base64 E sk), w'))"

definition saveMyKeys :: "env \<Rightarrow> json \<Rightarrow> (string \<rightharpoonup> string) \<Rightarrow> error + (string \<rightharpoonup> string)" where
  "saveMyKeys E keys st = setItem E ''myKeys'' (JSON_stringify E keys) st"

text \<open>\<open>raw ? JSON.parse(raw) : null\<close>: an absent and an empty entry both give \<open>null\<close>.\<close>

definition loadMyKeys :: "env \<Rightarrow> (string \<rightharpoonup> string) \<Rightarrow> error + json" where
  "loadMyKeys E st =
     (case st ''myKeys'' of
        None \<Rightarrow> Inr JNull
      | Some raw \<Rightarrow>
          if raw = [] then Inr JNull
          else (case JSON_parse E raw of None \<Rightarrow> Inl SyntaxError | Some v \<Rightarrow> Inr v))"

text \<open>\<open>JSON.parse(localStorage.getItem("contacts") || "[]")\<close>.\<close>

definition loadContacts :: "env \<Rightarrow> (string \<rightharpoonup> string) \<Rightarrow> error + json" where
  "loadContacts E st =
     (case JSON_parse E
             (case st ''contacts'' of
                None \<Rightarrow> ''[]''
              | Some raw \<Rightarrow> if raw = [] then ''[]'' else raw) of
        None \<Rightarrow> Inl SyntaxError
      | Some v \<Rightarrow> Inr v)"

definition saveContacts :: "env \<Rightarrow> json \<Rightarrow> (string \<rightharpoonup> string) \<Rightarrow> error + (string \<rightharpoonup> string)" where
  "saveContacts E contacts st = setItem E ''contacts'' (JSON_stringify E contacts) st"

subsection \<open>Encryption and decryption\<close>

text \<open>
  \<open>encryptMessage(recipientPublicKeyBase64, message)\<close>.  The arguments of
  \<open>crypto_box_easy\<close> are evaluated left to right, so the private key is decoded
  after the nonce has been drawn.  The token starts with the stored public key
  text as it is, not with a re-encoding of it.
\<close>

definition encryptMessage :: "env \<Rightarrow> json option \<Rightarrow> string \<Rightarrow> world \<Rightarrow> (error + string) \<times> world" where
  "encryptMessage E recipientPublicKeyBase64 message w =
     (case loadMyKeys E (storage w) of
        Inl e \<Rightarrow> (Inl e, w)
      | Inr myKeys \<Rightarrow>
          if truthy myKeys then
            (case sodium_from_base64 E recipientPublicKeyBase64 of
               Inl e \<Rightarrow> (Inl e, w)
             | Inr recipientPublicKey \<Rightarrow>
                 (case randombytes_buf E (crypto_box_NONCEBYTES E) w of
                    (nonce, w') \<Rightarrow>
                      (case get_prop (Some myKeys) ''privateKey'' of
                         Inl e \<Rightarrow> (Inl e, w')
                       | Inr privateKeyBase64 \<Rightarrow>
                           (case sodium_from_base64 E privateKeyBase64 of
                              Inl e \<Rightarrow> (Inl e, w')
                            | Inr privateKey \<Rightarrow>
                                (case crypto_box_easy E (from_string E message) nonce
                                        recipientPublicKey privateKey of
                                   None \<Rightarrow> (Inl SodiumError, w')
                                 | Some cipher \<Rightarrow>
                                     (case get_prop (Some myKeys) ''publicKey'' of
                                        Inl e \<Rightarrow> (Inl e, w')
                                      | Inr publicKeyBase64 \<Rightarrow>
                                          (case template publicKeyBase64 of
                                             Inl e \<Rightarrow> (Inl e, w')
                                           | Inr sender \<Rightarrow>
                                               (Inr (sender @ '':''
                                                     @ to_base64 E nonce @ '':''
                                                     @ to_base64 E cipher), w'))))))))
          else (Inl (Error ''No local keypair found''), w))"

text \<open>
  \<open>decryptMessage(encryptedMessage)\<close>.  The three \<open>from_base64\<close> calls on the
  parts of the token stand before the \<open>try\<close> block; the decoding of the private
  key, \<open>crypto_box_open_easy\<close> and \<open>to_string\<close> stand inside it, and whatever they
  raise is replaced by the one error of the \<open>catch\<close> clause.
\<close>

definition decryptMessage :: "env \<Rightarrow> string \<Rightarrow> (string \<rightharpoonup> string) \<Rightarrow> error + string" where
  "decryptMessage E encryptedMessage st =
     (case loadMyKeys E st of
        Inl e \<Rightarrow> Inl e
      | Inr myKeys \<Rightarrow>
          if truthy myKeys then
            (case js_split CHR '':'' encryptedMessage of
               [senderPublicKeyB64, nonceB64, cipherB64] \<Rightarrow>
                 (case from_base64 E senderPublicKeyB64 of
                    None \<Rightarrow> Inl SodiumError
                  | Some senderPublicKey \<Rightarrow>
                      (case from_base64 E nonceB64 of
                         None \<Rightarrow> Inl SodiumError
                       | Some nonce \<Rightarrow>
                           (case from_base64 E cipherB64 of
                              None \<Rightarrow> Inl SodiumError
                            | Some cipher \<Rightarrow>
                                (case (case get_prop (Some myKeys) ''privateKey'' of
                                         Inl e \<Rightarrow> None
                                       | Inr privateKeyBase64 \<Rightarrow>
                                           (case sodium_from_base64 E privateKeyBase64 of
                                              Inl e \<Rightarrow> None
                                            | Inr privateKey \<Rightarrow>
                                                (case crypto_box_open_easy E cipher nonce
                                                        senderPublicKey privateKey of
                                                   None \<Rightarrow> None
                                                 | Some plaintext \<Rightarrow> to_string E plaintext))) of
                                   None \<Rightarrow>
                                     Inl (Error ''Failed to decrypt message. It may not be intended for you or is corrupted.'')
                                 | Some text \<Rightarrow> Inr text))))
             | _ \<Rightarrow> Inl (Error ''Invalid message format''))
          else Inl (Error ''No local keypair found''))"

section \<open>The button handlers\<close>

text \<open>
  What a handler leaves on the page: an \<open>alert\<close> with a fixed text, an \<open>alert\<close> of a
  prefix followed by the message of a caught exception, an exception that leaves the
  handler uncaught, a text written to an output field, the message of a caught
  exception written to an output field, or a finished re-rendering.
\<close>

datatype outcome =
    Alert string
  | AlertError string error
  | Uncaught error
  | Shown string
  | ShownError error
  | Rendered

text \<open>\<open>renderMyKey\<close> reads the identity again; the page it draws is not modelled.\<close>

definition renderMyKey :: "env \<Rightarrow> (string \<rightharpoonup> string) \<Rightarrow> error + unit" where
  "renderMyKey E st = (case loadMyKeys E st of Inl e \<Rightarrow> Inl e | Inr keys \<Rightarrow> Inr ())"

text \<open>
  \<open>renderContacts\<close> reads the list again and visits every entry with \<open>forEach\<close>,
  reading \<open>c.name\<close>: a stored value that is not an array, or an array with a
  \<open>null\<close> entry, raises a TypeError.
\<close>

definition renderContacts :: "env \<Rightarrow> (string \<rightharpoonup> string) \<Rightarrow> error + unit" where
  "renderContacts E st =
     (case loadContacts E st of
        Inl e \<Rightarrow> Inl e
      | Inr (JArr cs) \<Rightarrow> if JNull \<in> set cs then Inl TypeError else Inr ()
      | Inr _ \<Rightarrow> Inl TypeError)"

definition generateBtn_onclick :: "env \<Rightarrow> world \<Rightarrow> outcome \<times> world" where
  "generateBtn_onclick E w =
     (case generateKeyPair E w of
        (keys, w') \<Rightarrow>
          (case saveMyKeys E keys (storage w') of
             Inl e \<Rightarrow> (Uncaught e, w')
           | Inr st \<Rightarrow>
               (case renderMyKey E st of
                  Inl e \<Rightarrow> (Uncaught e, w'\<lparr>storage := st\<rparr>)
                | Inr u \<Rightarrow> (Rendered, w'\<lparr>storage := st\<rparr>))))"

text \<open>The object literal \<open>{ name, publicKey: key }\<close>.\<close>

definition contact_object :: "string \<Rightarrow> string \<Rightarrow> json" where
  "contact_object name key = JObj [(''name'', JStr name), (''publicKey'', JStr key)]"

text \<open>\<open>addContactBtn.onclick\<close>, with the texts of the two input fields.\<close>

definition addContactBtn_onclick :: "env \<Rightarrow> string \<Rightarrow> string \<Rightarrow> world \<Rightarrow> outcome \<times> world" where
  "addContactBtn_onclick E contactNameInput contactKeyInput w =
     (let name = trim E contactNameInput; key = trim E contactKeyInput in
      if name = [] \<or> key = [] then (Alert ''Name and public key are required'', w)
      else
        (case loadContacts E (storage w) of
           Inl e \<Rightarrow> (Uncaught e, w)
         | Inr contacts \<Rightarrow>
             (case js_push contacts (contact_object name key) of
                Inl e \<Rightarrow> (Uncaught e, w)
              | Inr contacts' \<Rightarrow>
                  (case saveContacts E contacts' (storage w) of
                     Inl e \<Rightarrow> (Uncaught e, w)
                   | Inr st \<Rightarrow>
                       (case renderContacts E st of
                          Inl e \<Rightarrow> (Uncaught e, w\<lparr>storage := st\<rparr>)
                        | Inr u \<Rightarrow> (Rendered, w\<lparr>storage := st\<rparr>))))))"

text \<open>
  \<open>encryptBtn.onclick\<close>, with the value of the recipient selector (\<open>None\<close> for the
  empty value of the placeholder option, \<open>Some i\<close> for the option of contact \<open>i\<close>)
  and the text of the message field.  The contact is looked up before the \<open>try\<close>
  block; \<open>contact.publicKey\<close> is read inside it.
\<close>

definition encryptBtn_onclick :: "env \<Rightarrow> nat option \<Rightarrow> string \<Rightarrow> world \<Rightarrow> outcome \<times> world" where
  "encryptBtn_onclick E selectedIndex plainText w =
     (case selectedIndex of
        None \<Rightarrow> (Alert ''Select a recipient first'', w)
      | Some i \<Rightarrow>
          (case loadContacts E (storage w) of
             Inl e \<Rightarrow> (Uncaught e, w)
           | Inr contacts \<Rightarrow>
               (case js_index contacts i of
                  Inl e \<Rightarrow> (Uncaught e, w)
                | Inr contact \<Rightarrow>
                    (let message = trim E plainText in
                     if message = [] then (Alert ''Type a message first'', w)
                     else
                       (case get_prop contact ''publicKey'' of
                          Inl e \<Rightarrow> (AlertError ''Encryption failed: '' e, w)
                        | Inr publicKey \<Rightarrow>
                            (case encryptMessage E publicKey message w of
                               (Inl e, w') \<Rightarrow> (AlertError ''Encryption failed: '' e, w')
                             | (Inr encrypted, w') \<Rightarrow> (Shown encrypted, w')))))))"

text \<open>\<open>decryptBtn.onclick\<close>, with the text of the input field.\<close>

definition decryptBtn_onclick :: "env \<Rightarrow> string \<Rightarrow> world \<Rightarrow> outcome \<times> world" where
  "decryptBtn_onclick E encryptedInput w =
     (let encryptedText = trim E encryptedInput in
      if encryptedText = [] then (Alert ''Paste an encrypted message first'', w)
      else
        (case decryptMessage E encryptedText (storage w) of
           Inl e \<Rightarrow> (ShownError e, w)
         | Inr decrypted \<Rightarrow> (Shown decrypted, w)))"

text \<open>
  The callback that \<open>scanQrBtn.onclick\<close> registers for a decoded QR code, with the
  answer of \<open>prompt\<close> (\<open>None\<close> when the dialogue is cancelled) and the decoded
  text.  Its whole body is one \<open>try\<close> block.
\<close>

definition scanQr_onDecoded :: "env \<Rightarrow> string option \<Rightarrow> string \<Rightarrow> world \<Rightarrow> outcome \<times> world" where
  "scanQr_onDecoded E prompted decodedText w =
     (case prompted of
        None \<Rightarrow> (Alert ''Name required'', w)
      | Some name \<Rightarrow>
          if name = [] then (Alert ''Name required'', w)
          else
            (case loadContacts E (storage w) of
               Inl e \<Rightarrow> (AlertError ''Failed to add contact: '' e, w)
             | Inr contacts \<Rightarrow>
                 (case js_push contacts (contact_object name decodedText) of
                    Inl e \<Rightarrow> (AlertError ''Failed to add contact: '' e, w)
                  | Inr contacts' \<Rightarrow>
                      (case saveContacts E contacts' (storage w) of
                         Inl e \<Rightarrow> (AlertError ''Failed to add contact: '' e, w)
                       | Inr st \<Rightarrow>
                           (case renderContacts E st of
                              Inl e \<Rightarrow> (AlertError ''Failed to add contact: '' e, w\<lparr>storage := st\<rparr>)
                            | Inr u \<Rightarrow> (Alert ''Contact added successfully!'', w\<lparr>storage := st\<rparr>))))))"

section \<open>The conditions of the specification, as the code signals them\<close>

definition NoIdentity :: error where
  "NoIdentity = Error ''No local keypair found''"

definition MalformedEnvelope :: error where
  "MalformedEnvelope = Error ''Invalid message format''"

definition DecryptionFailed :: error where
  "DecryptionFailed =
     Error ''Failed to decrypt message. It may not be intended for you or is corrupted.''"

definition InvalidRecipient :: outcome where
  "InvalidRecipient = Alert ''Select a recipient first''"

definition InvalidContact :: outcome where
  "InvalidContact = Alert ''Name and public key are required''"

section \<open>Contracts of the collaborators\<close>

text \<open>
  The base64 codec decodes what it encodes, and its alphabet has no colon.
\<close>

definition base64_ok :: "env \<Rightarrow> bool" where
  "base64_ok E =
     ((\<forall>b. from_base64 E (to_base64 E b) = Some b) \<and>
      (\<forall>b. CHR '':'' \<notin> set (to_base64 E b)))"

text \<open>\<open>to_string\<close> decodes what \<open>from_string\<close> encodes.\<close>

definition utf8_ok :: "env \<Rightarrow> bool" where
  "utf8_ok E = (\<forall>s. to_string E (from_string E s) = Some s)"

text \<open>A key pair as \<open>crypto_box_keypair\<close> makes it.\<close>

definition keypair :: "env \<Rightarrow> bytes \<Rightarrow> bytes \<Rightarrow> bool" where
  "keypair E pk sk =
     (length sk = crypto_box_SECRETKEYBYTES E \<and> pk = crypto_scalarmult_base E sk)"

text \<open>
  Correctness of the box: what is sealed to the public key of one pair with the
  private key of another, under a nonce of the required length, opens with the
  other two halves of the pairs.
\<close>

definition box_ok :: "env \<Rightarrow> bool" where
  "box_ok E =
     (\<forall>m n pkA skA pkB skB.
        keypair E pkA skA \<and> keypair E pkB skB \<and> length n = crypto_box_NONCEBYTES E \<longrightarrow>
        (\<exists>c. crypto_box_easy E m n pkB skA = Some c \<and>
             crypto_box_open_easy E c n pkA skB = Some m))"

definition sodium_ok :: "env \<Rightarrow> bool" where
  "sodium_ok E = (base64_ok E \<and> utf8_ok E \<and> box_ok E)"

section \<open>A small environment to run the program in\<close>

text \<open>
  An executable environment with the interface of the collaborators: base16 text in
  the place of base64, one byte per character for strings, a toy box over two-byte
  keys and nonces that carries a checksum of the message, a counting entropy tape,
  a reader and a printer for JSON without white space and escapes, a \<open>trim\<close> for ASCII white space, and a store that
  refuses values longer than 200 characters.
\<close>

definition hex_digit :: "nat \<Rightarrow> char" where
  "hex_digit n = ''0123456789abcdef'' ! n"

definition hex_value :: "char \<Rightarrow> nat option" where
  "hex_value c =
     map_of [(CHR ''0'', 0), (CHR ''1'', 1), (CHR ''2'', 2), (CHR ''3'', 3),
             (CHR ''4'', 4), (CHR ''5'', 5), (CHR ''6'', 6), (CHR ''7'', 7),
             (CHR ''8'', 8), (CHR ''9'', 9), (CHR ''a'', 10), (CHR ''b'', 11),
             (CHR ''c'', 12), (CHR ''d'', 13), (CHR ''e'', 14), (CHR ''f'', 15)] c"

definition demo_to_base64 :: "bytes \<Rightarrow> string" where
  "demo_to_base64 bs =
     concat (map (\<lambda>b. [hex_digit (unat b div 16), hex_digit (unat b mod 16)]) bs)"

fun demo_from_base64 :: "string \<Rightarrow> bytes option" where
  "demo_from_base64 [] = Some []"
| "demo_from_base64 [c] = None"
| "demo_from_base64 (c # d # cs) =
     (case hex_value c of
        None \<Rightarrow> None
      | Some h \<Rightarrow>
          (case hex_value d of
             None \<Rightarrow> None
           | Some l \<Rightarrow>
               (case demo_from_base64 cs of
                  None \<Rightarrow> None
                | Some bs \<Rightarrow> Some (of_nat (16 * h + l) # bs))))"

definition demo_from_string :: "string \<Rightarrow> bytes" where
  "demo_from_string s = map (\<lambda>c. of_nat (of_char c)) s"

definition demo_to_string :: "bytes \<Rightarrow> string option" where
  "demo_to_string bs = Some (map (\<lambda>b. char_of (unat b)) bs)"

definition demo_scalarmult_base :: "bytes \<Rightarrow> bytes" where
  "demo_scalarmult_base sk = map (\<lambda>b. 3 * b) sk"

definition demo_shared :: "bytes \<Rightarrow> bytes \<Rightarrow> 8 word" where
  "demo_shared pk sk = sum_list pk + 3 * sum_list sk"

definition demo_box_easy :: "bytes \<Rightarrow> bytes \<Rightarrow> bytes \<Rightarrow> bytes \<Rightarrow> bytes option" where
  "demo_box_easy m n pk sk =
     (if length n = 2 \<and> length pk = 2 \<and> length sk = 2
      then Some (n @ [demo_shared pk sk + sum_list m] @ map (\<lambda>b. b + demo_shared pk sk) m)
      else None)"

definition demo_box_open_easy :: "bytes \<Rightarrow> bytes \<Rightarrow> bytes \<Rightarrow> bytes \<Rightarrow> bytes option" where
  "demo_box_open_easy c n pk sk =
     (if length n = 2 \<and> length pk = 2 \<and> length sk = 2 \<and> 3 \<le> length c
         \<and> take 2 c = n
         \<and> c ! 2 = demo_shared pk sk + sum_list (map (\<lambda>b. b - demo_shared pk sk) (drop 3 c))
      then Some (map (\<lambda>b. b - demo_shared pk sk) (drop 3 c))
      else None)"

fun demo_stringify :: "json \<Rightarrow> string" where
  "demo_stringify JNull = ''null''"
| "demo_stringify (JBool b) = (if b then ''true'' else ''false'')"
| "demo_stringify (JNum s) = s"
| "demo_stringify (JStr s) = CHR 0x22 # s @ [CHR 0x22]"
| "demo_stringify (JArr xs) = ''['' @ join_comma (map demo_stringify xs) @ '']''"
| "demo_stringify (JObj kvs) =
     ''{'' @ join_comma (map (\<lambda>kv. CHR 0x22 # fst kv @ [CHR 0x22] @ '':''
                                    @ demo_stringify (snd kv)) kvs) @ ''}''"

fun read_string :: "string \<Rightarrow> (string \<times> string) option" where
  "read_string [] = None"
| "read_string (c # cs) =
     (if c = CHR 0x22 then Some ([], cs)
      else (case read_string cs of
              None \<Rightarrow> None
            | Some (s, rest) \<Rightarrow> Some (c # s, rest)))"

definition is_digit :: "char \<Rightarrow> bool" where
  "is_digit c = (c \<in> set ''0123456789'')"

text \<open>The reader, with a bound on the nesting and the number of entries it accepts.\<close>

fun parse_value :: "nat \<Rightarrow> string \<Rightarrow> (json \<times> string) option"
and parse_elements :: "nat \<Rightarrow> string \<Rightarrow> (json list \<times> string) option"
and parse_members :: "nat \<Rightarrow> string \<Rightarrow> ((string \<times> json) list \<times> string) option" where
  "parse_value 0 s = None"
| "parse_value (Suc n) s =
     (if take 1 s = ''['' then
        (if take 2 s = ''[]'' then Some (JArr [], drop 2 s)
         else (case parse_elements n (drop 1 s) of
                 None \<Rightarrow> None
               | Some (xs, rest) \<Rightarrow> Some (JArr xs, rest)))
      else if take 1 s = ''{'' then
        (if take 2 s = ''{}'' then Some (JObj [], drop 2 s)
         else (case parse_members n (drop 1 s) of
                 None \<Rightarrow> None
               | Some (kvs, rest) \<Rightarrow> Some (JObj kvs, rest)))
      else if take 1 s = [CHR 0x22] then
        (case read_string (drop 1 s) of
           None \<Rightarrow> None
         | Some (t, rest) \<Rightarrow> Some (JStr t, rest))
      else if take 4 s = ''null'' then Some (JNull, drop 4 s)
      else if take 4 s = ''true'' then Some (JBool True, drop 4 s)
      else if take 5 s = ''false'' then Some (JBool False, drop 5 s)
      else if takeWhile is_digit s = [] then None
      else if 1 < length (takeWhile is_digit s) \<and> take 1 s = ''0'' then None
      else Some (JNum (takeWhile is_digit s), dropWhile is_digit s))"
| "parse_elements 0 s = None"
| "parse_elements (Suc n) s =
     (case parse_value n s of
        None \<Rightarrow> None
      | Some (v, rest) \<Rightarrow>
          if take 1 rest = '']'' then Some ([v], drop 1 rest)
          else if take 1 rest = '','' then
            (case parse_elements n (drop 1 rest) of
               None \<Rightarrow> None
             | Some (vs, rest') \<Rightarrow> Some (v # vs, rest'))
          else None)"
| "parse_members 0 s = None"
| "parse_members (Suc n) s =
     (if take 1 s = [CHR 0x22] then
        (case read_string (drop 1 s) of
           None \<Rightarrow> None
         | Some (k, rest) \<Rightarrow>
             if take 1 rest = '':'' then
               (case parse_value n (drop 1 rest) of
                  None \<Rightarrow> None
                | Some (v, rest') \<Rightarrow>
                    if take 1 rest' = ''}'' then Some ([(k, v)], drop 1 rest')
                    else if take 1 rest' = '','' then
                      (case parse_members n (drop 1 rest') of
                         None \<Rightarrow> None
                       | Some (kvs, rest'') \<Rightarrow> Some ((k, v) # kvs, rest''))
                    else None)
             else None)
      else None)"

definition demo_parse :: "string \<Rightarrow> json option" where
  "demo_parse s =
     (case parse_value (Suc (length s)) s of
        None \<Rightarrow> None
      | Some (v, rest) \<Rightarrow> if rest = [] then Some v else None)"

definition is_space :: "char \<Rightarrow> bool" where
  "is_space c = (c \<in> set [CHR '' '', CHR 0x09, CHR 0x0A, CHR 0x0B, CHR 0x0C, CHR 0x0D])"

definition demo_trim :: "string \<Rightarrow> string" where
  "demo_trim s = rev (dropWhile is_space (rev (dropWhile is_space s)))"

definition demo :: env where
  "demo = \<lparr>from_base64 = demo_from_base64, to_base64 = demo_to_base64,
           from_string = demo_from_string, to_string = demo_to_string,
           crypto_box_NONCEBYTES = 2, crypto_box_SECRETKEYBYTES = 2,
           crypto_scalarmult_base = demo_scalarmult_base,
           crypto_box_easy = demo_box_easy, crypto_box_open_easy = demo_box_open_easy,
           entropy = (\<lambda>i. of_nat (7 * i + 1)),
           JSON_parse = demo_parse, JSON_stringify = demo_stringify, trim = demo_trim,
           storage_full = (\<lambda>st k v. 200 < length v)\<rparr>"

text \<open>
  Two devices: Alice holds the key pair drawn from the first two cells of the tape
  and has Bob as her only contact; Bob holds the key pair drawn from cells 4 and 5.
\<close>

definition alice :: world where
  "alice =
     \<lparr>storage = [''myKeys'' \<mapsto> demo_stringify (keys_object ''0318'' ''0108''),
                 ''contacts'' \<mapsto> demo_stringify (JArr [contact_object ''Bob'' ''576c''])],
      drawn = 2\<rparr>"

definition bob :: world where
  "bob =
     \<lparr>storage = [''myKeys'' \<mapsto> demo_stringify (keys_object ''576c'' ''1d24'')],
      drawn = 6\<rparr>"

text \<open>A device without identity whose stored contact list is the text \<open>[null]\<close>.\<close>

definition damaged :: world where
  "damaged = \<lparr>storage = [''contacts'' \<mapsto> ''[null]''], drawn = 0\<rparr>"

text \<open>A device that holds Bob as a contact and no identity.\<close>

definition newcomer :: world where
  "newcomer =
     \<lparr>storage = [''contacts'' \<mapsto> demo_stringify (JArr [contact_object ''Bob'' ''576c''])],
      drawn = 0\<rparr>"


section \<open>Splitting and joining tokens\<close>

lemma js_split_no_sep: "sep \<notin> set s \<Longrightarrow> js_split sep s = [s]"
  by (induction s) auto

lemma js_split_append:
  "sep \<notin> set a \<Longrightarrow> js_split sep (a @ sep # rest) = a # js_split sep rest"
  by (induction a) auto

lemma js_split_token:
  assumes "CHR '':'' \<notin> set a" and "CHR '':'' \<notin> set b" and "CHR '':'' \<notin> set c"
  shows "js_split CHR '':'' (a @ '':'' @ b @ '':'' @ c) = [a, b, c]"
  using assms by (simp add: js_split_append js_split_no_sep)

section \<open>What the two functions compute on a well-formed identity\<close>

lemma truthy_keys_object: "truthy (keys_object p q)"
  by (simp add: keys_object_def)

lemma get_prop_keys_object:
  "get_prop (Some (keys_object p q)) ''publicKey'' = Inr (Some (JStr p))"
  "get_prop (Some (keys_object p q)) ''privateKey'' = Inr (Some (JStr q))"
  by (simp_all add: keys_object_def)

lemma encryptMessage_sealed:
  assumes keys: "loadMyKeys E (storage w) = Inr (keys_object pkText skText)"
    and sk: "from_base64 E skText = Some sk"
    and rpk: "from_base64 E r = Some rpk"
    and box: "crypto_box_easy E (from_string E m)
                (fst (randombytes_buf E (crypto_box_NONCEBYTES E) w)) rpk sk = Some c"
  shows "encryptMessage E (Some (JStr r)) m w =
           (Inr (pkText @ '':''
                 @ to_base64 E (fst (randombytes_buf E (crypto_box_NONCEBYTES E) w)) @ '':''
                 @ to_base64 E c),
            snd (randombytes_buf E (crypto_box_NONCEBYTES E) w))"
  using assms
  by (simp add: encryptMessage_def truthy_keys_object get_prop_keys_object
      sodium_from_base64_def template_def split_beta)

lemma decryptMessage_parts:
  assumes keys: "loadMyKeys E st = Inr (keys_object pkText skText)"
    and parts: "js_split CHR '':'' t = [a, b, c]"
    and a: "from_base64 E a = Some spk"
    and b: "from_base64 E b = Some n"
    and c: "from_base64 E c = Some ct"
    and sk: "from_base64 E skText = Some sk"
  shows "decryptMessage E t st =
           (case crypto_box_open_easy E ct n spk sk of
              None \<Rightarrow> Inl DecryptionFailed
            | Some p \<Rightarrow> (case to_string E p of None \<Rightarrow> Inl DecryptionFailed | Some s \<Rightarrow> Inr s))"
  using assms
  by (simp add: decryptMessage_def truthy_keys_object get_prop_keys_object
      sodium_from_base64_def DecryptionFailed_def split: option.splits)

lemma randombytes_buf_length: "length (fst (randombytes_buf E n w)) = n"
  by (simp add: randombytes_buf_def)

lemma randombytes_buf_storage: "storage (snd (randombytes_buf E n w)) = storage w"
  by (simp add: randombytes_buf_def)

lemma seal_then_open:
  assumes ok: "sodium_ok E"
    and A: "keypair E pkA skA" and B: "keypair E pkB skB"
    and keysA: "loadMyKeys E (storage wA) = Inr (keys_object (to_base64 E pkA) (to_base64 E skA))"
    and keysB: "loadMyKeys E stB = Inr (keys_object (to_base64 E pkB) (to_base64 E skB))"
  shows "\<exists>c. crypto_box_easy E (from_string E P)
                (fst (randombytes_buf E (crypto_box_NONCEBYTES E) wA)) pkB skA = Some c
           \<and> encryptMessage E (Some (JStr (to_base64 E pkB))) P wA =
               (Inr (to_base64 E pkA @ '':''
                     @ to_base64 E (fst (randombytes_buf E (crypto_box_NONCEBYTES E) wA)) @ '':''
                     @ to_base64 E c),
                snd (randombytes_buf E (crypto_box_NONCEBYTES E) wA))
           \<and> decryptMessage E
                (to_base64 E pkA @ '':''
                 @ to_base64 E (fst (randombytes_buf E (crypto_box_NONCEBYTES E) wA)) @ '':''
                 @ to_base64 E c) stB = Inr P"
proof -
  let ?n = "fst (randombytes_buf E (crypto_box_NONCEBYTES E) wA)"
  from ok have b64: "\<And>b. from_base64 E (to_base64 E b) = Some b"
    and nocolon: "\<And>b. CHR '':'' \<notin> set (to_base64 E b)"
    and utf8: "\<And>s. to_string E (from_string E s) = Some s"
    and box: "box_ok E"
    by (simp_all add: sodium_ok_def base64_ok_def utf8_ok_def)
  have "length ?n = crypto_box_NONCEBYTES E" by (rule randombytes_buf_length)
  with box A B obtain c where
    seal: "crypto_box_easy E (from_string E P) ?n pkB skA = Some c" and
    opn: "crypto_box_open_easy E c ?n pkA skB = Some (from_string E P)"
    unfolding box_ok_def by blast
  have enc: "encryptMessage E (Some (JStr (to_base64 E pkB))) P wA =
      (Inr (to_base64 E pkA @ '':'' @ to_base64 E ?n @ '':'' @ to_base64 E c),
       snd (randombytes_buf E (crypto_box_NONCEBYTES E) wA))"
    by (rule encryptMessage_sealed [OF keysA b64 b64 seal])
  have split: "js_split CHR '':'' (to_base64 E pkA @ '':'' @ to_base64 E ?n @ '':'' @ to_base64 E c)
      = [to_base64 E pkA, to_base64 E ?n, to_base64 E c]"
    by (rule js_split_token) (rule nocolon)+
  have dec: "decryptMessage E (to_base64 E pkA @ '':'' @ to_base64 E ?n @ '':'' @ to_base64 E c) stB
      = Inr P"
    by (subst decryptMessage_parts [OF keysB split b64 b64 b64 b64]) (simp add: opn utf8)
  from seal enc dec show ?thesis by blast
qed

lemma generateKeyPair_keypair:
  "\<exists>pk sk. keypair E pk sk
     \<and> fst (generateKeyPair E w) = keys_object (to_base64 E pk) (to_base64 E sk)"
proof -
  let ?sk = "map (entropy E) [drawn w ..< drawn w + crypto_box_SECRETKEYBYTES E]"
  have "keypair E (crypto_scalarmult_base E ?sk) ?sk"
    by (simp add: keypair_def)
  moreover have "fst (generateKeyPair E w)
      = keys_object (to_base64 E (crypto_scalarmult_base E ?sk)) (to_base64 E ?sk)"
    by (simp add: generateKeyPair_def randombytes_buf_def)
  ultimately show ?thesis by blast
qed

section \<open>Round trip\<close>

text \<open>
  C1.  For every plaintext \<open>P\<close> and every two key pairs, when Alice's device holds
  \<open>(pkA, skA)\<close> and Bob's holds \<open>(pkB, skB)\<close>, \<open>encryptMessage\<close> on Alice's device,
  called with Bob's public key text, returns a token, and \<open>decryptMessage\<close> on
  Bob's device returns exactly \<open>P\<close> for that token.  The collaborators are assumed
  to keep their contracts (\<open>sodium_ok\<close>).
\<close>

theorem encrypt_decrypt_roundtrip:
  assumes "sodium_ok E"
    and "keypair E pkA skA" and "keypair E pkB skB"
    and "loadMyKeys E (storage wA) = Inr (keys_object (to_base64 E pkA) (to_base64 E skA))"
    and "loadMyKeys E stB = Inr (keys_object (to_base64 E pkB) (to_base64 E skB))"
  shows "\<exists>token wA'. encryptMessage E (Some (JStr (to_base64 E pkB))) P wA = (Inr token, wA')
           \<and> decryptMessage E token stB = Inr P"
  using seal_then_open [OF assms, of P] by blast

section \<open>The small environment keeps the contracts\<close>

lemma unat_byte: "unat (b :: 8 word) < 256"
proof -
  have "unat b < 2 ^ LENGTH(8)" by (rule unsigned_less)
  then show ?thesis by simp
qed

lemma nibble_cases:
  assumes "n < (16::nat)"
  shows "n \<in> {15, 14, 13, 12, 11, 10, 9, 8, 7, 6, 5, 4, 3, 2, 1, 0}"
proof -
  have "n = 15 \<or> n = 14 \<or> n = 13 \<or> n = 12 \<or> n = 11 \<or> n = 10 \<or> n = 9 \<or> n = 8
        \<or> n = 7 \<or> n = 6 \<or> n = 5 \<or> n = 4 \<or> n = 3 \<or> n = 2 \<or> n = 1 \<or> n = 0"
    using assms by arith
  then show ?thesis by blast
qed

lemma hex_value_digit: "n < 16 \<Longrightarrow> hex_value (hex_digit n) = Some n"
  using nibble_cases [of n] by (auto simp: hex_value_def hex_digit_def)

lemma hex_digit_not_colon: "n < 16 \<Longrightarrow> hex_digit n \<noteq> CHR '':''"
  using nibble_cases [of n] by (auto simp: hex_digit_def)

lemma demo_base64_roundtrip: "demo_from_base64 (demo_to_base64 bs) = Some bs"
proof (induction bs)
  case Nil
  show ?case by (simp add: demo_to_base64_def)
next
  case (Cons b bs)
  have hi: "unat b div 16 < 16" using unat_byte [of b] by simp
  have lo: "unat b mod 16 < 16" by simp
  from Cons show ?case
    by (simp add: demo_to_base64_def hex_value_digit [OF hi] hex_value_digit [OF lo])
qed

lemma demo_base64_no_colon: "CHR '':'' \<notin> set (demo_to_base64 bs)"
proof (induction bs)
  case Nil
  show ?case by (simp add: demo_to_base64_def)
next
  case (Cons b bs)
  have hi: "unat b div 16 < 16" using unat_byte [of b] by simp
  have lo: "unat b mod 16 < 16" by simp
  from Cons hex_digit_not_colon [OF hi] hex_digit_not_colon [OF lo] show ?case
    by (auto simp: demo_to_base64_def)
qed

lemma demo_base64_ok: "base64_ok demo"
  by (simp add: base64_ok_def demo_def demo_base64_roundtrip demo_base64_no_colon)

lemma demo_utf8_ok: "utf8_ok demo"
  by (simp add: utf8_ok_def demo_def demo_to_string_def demo_from_string_def
      unat_of_nat map_idI)

lemma sum_list_scaled: "sum_list (map (\<lambda>b. 3 * b) xs) = 3 * sum_list (xs :: 8 word list)"
  by (induction xs) (simp_all add: algebra_simps)

lemma demo_shared_symmetric:
  "demo_shared (demo_scalarmult_base skB) skA = demo_shared (demo_scalarmult_base skA) skB"
  by (simp add: demo_shared_def demo_scalarmult_base_def sum_list_scaled)

lemma unmask_mask: "map ((\<lambda>b. b - k) \<circ> (\<lambda>b. b + k)) m = (m :: 8 word list)"
  by (induction m) simp_all

lemma length_demo_scalarmult_base: "length (demo_scalarmult_base sk) = length sk"
  by (simp add: demo_scalarmult_base_def)

lemma demo_box_roundtrip:
  assumes "length n = 2" and "length skA = 2" and "length skB = 2"
  shows "demo_box_open_easy
           (n @ [demo_shared (demo_scalarmult_base skB) skA + sum_list m]
              @ map (\<lambda>b. b + demo_shared (demo_scalarmult_base skB) skA) m)
           n (demo_scalarmult_base skA) skB = Some m"
  using assms
  by (simp add: demo_box_open_easy_def demo_shared_symmetric [of skB skA] unmask_mask
      length_demo_scalarmult_base nth_append)

lemma demo_box_ok: "box_ok demo"
  unfolding box_ok_def keypair_def
proof (intro allI impI)
  fix m n pkA skA pkB skB :: bytes
  assume h: "(length skA = crypto_box_SECRETKEYBYTES demo \<and> pkA = crypto_scalarmult_base demo skA)
       \<and> (length skB = crypto_box_SECRETKEYBYTES demo \<and> pkB = crypto_scalarmult_base demo skB)
       \<and> length n = crypto_box_NONCEBYTES demo"
  then have len: "length n = 2" "length skA = 2" "length skB = 2"
    and pk: "pkA = demo_scalarmult_base skA" "pkB = demo_scalarmult_base skB"
    by (simp_all add: demo_def)
  have seal: "crypto_box_easy demo m n pkB skA =
      Some (n @ [demo_shared (demo_scalarmult_base skB) skA + sum_list m]
              @ map (\<lambda>b. b + demo_shared (demo_scalarmult_base skB) skA) m)"
    using len pk by (simp add: demo_def demo_box_easy_def length_demo_scalarmult_base)
  have opn: "crypto_box_open_easy demo
      (n @ [demo_shared (demo_scalarmult_base skB) skA + sum_list m]
         @ map (\<lambda>b. b + demo_shared (demo_scalarmult_base skB) skA) m) n pkA skB = Some m"
    using demo_box_roundtrip [OF len] pk by (simp add: demo_def)
  from seal opn
  show "\<exists>c. crypto_box_easy demo m n pkB skA = Some c \<and>
            crypto_box_open_easy demo c n pkA skB = Some m"
    by blast
qed

lemma demo_sodium_ok: "sodium_ok demo"
  by (simp add: sodium_ok_def demo_base64_ok demo_utf8_ok demo_box_ok)

lemma alice_keypair: "keypair demo [3, 24] [1, 8]"
  by (simp add: keypair_def demo_def demo_scalarmult_base_def)

lemma bob_keypair: "keypair demo [87, 108] [29, 36]"
  by (simp add: keypair_def demo_def demo_scalarmult_base_def)

lemma alice_identity:
  "loadMyKeys demo (storage alice) =
     Inr (keys_object (to_base64 demo [3, 24]) (to_base64 demo [1, 8]))"
  by (simp add: loadMyKeys_def alice_def demo_def demo_parse_def keys_object_def
      contact_object_def demo_to_base64_def hex_digit_def)

lemma bob_identity:
  "loadMyKeys demo (storage bob) =
     Inr (keys_object (to_base64 demo [87, 108]) (to_base64 demo [29, 36]))"
  by (simp add: loadMyKeys_def bob_def demo_def demo_parse_def keys_object_def
      demo_to_base64_def hex_digit_def)

lemma alice_contacts:
  "loadContacts demo (storage alice) = Inr (JArr [contact_object ''Bob'' ''576c''])"
  by (simp add: loadContacts_def alice_def demo_def demo_parse_def contact_object_def
      keys_object_def)

theorem encrypt_decrypt_roundtrip_witness:
  "sodium_ok demo \<and> keypair demo [3, 24] [1, 8] \<and> keypair demo [87, 108] [29, 36]
   \<and> loadMyKeys demo (storage alice) =
       Inr (keys_object (to_base64 demo [3, 24]) (to_base64 demo [1, 8]))
   \<and> loadMyKeys demo (storage bob) =
       Inr (keys_object (to_base64 demo [87, 108]) (to_base64 demo [29, 36]))
   \<and> (\<exists>token w'. encryptMessage demo (Some (JStr (to_base64 demo [87, 108]))) ''hello'' alice
                     = (Inr token, w')
         \<and> decryptMessage demo token (storage bob) = Inr ''hello'')"
  using encrypt_decrypt_roundtrip
          [OF demo_sodium_ok alice_keypair bob_keypair alice_identity bob_identity, of "''hello''"]
        demo_sodium_ok alice_keypair bob_keypair alice_identity bob_identity
  by blast

section \<open>Identity absence\<close>

lemma loadMyKeys_absent: "st ''myKeys'' = None \<Longrightarrow> loadMyKeys E st = Inr JNull"
  by (simp add: loadMyKeys_def)

lemma get_prop_not_null: "v \<noteq> JNull \<Longrightarrow> \<exists>r. get_prop (Some v) k = Inr r"
  by (cases v) simp_all

lemma encryptMessage_no_identity:
  "storage w ''myKeys'' = None \<Longrightarrow> encryptMessage E r m w = (Inl NoIdentity, w)"
  by (simp add: encryptMessage_def loadMyKeys_absent NoIdentity_def)

lemma decryptMessage_no_identity:
  "storage w ''myKeys'' = None \<Longrightarrow> decryptMessage E t (storage w) = Inl NoIdentity"
  by (simp add: decryptMessage_def loadMyKeys_absent NoIdentity_def)

text \<open>
  C5.  When the identity slot is absent, \<open>encryptMessage\<close> and \<open>decryptMessage\<close>
  both fail with \<open>NoIdentity\<close>, for every recipient, message and token; the
  encryption returns the device as it found it (no random byte drawn, nothing
  stored), so the check comes before any other work.  The two handlers report that
  failure as soon as their own input checks have passed (a token that is not
  blank; a selected entry of the contact list and a message that is not blank).
\<close>

theorem no_identity_fails_first:
  assumes "storage w ''myKeys'' = None"
  shows "encryptMessage E recipient message w = (Inl NoIdentity, w)
         \<and> decryptMessage E token (storage w) = Inl NoIdentity
         \<and> (trim E encryptedInput \<noteq> []
            \<longrightarrow> decryptBtn_onclick E encryptedInput w = (ShownError NoIdentity, w))
         \<and> (\<forall>cs i. loadContacts E (storage w) = Inr (JArr cs) \<and> i < length cs
                \<and> cs ! i \<noteq> JNull \<and> trim E plainText \<noteq> []
            \<longrightarrow> encryptBtn_onclick E (Some i) plainText w
                  = (AlertError ''Encryption failed: '' NoIdentity, w))"
proof (intro conjI allI impI)
  show "encryptMessage E recipient message w = (Inl NoIdentity, w)"
    by (rule encryptMessage_no_identity [OF assms])
  show "decryptMessage E token (storage w) = Inl NoIdentity"
    by (rule decryptMessage_no_identity [OF assms])
next
  assume "trim E encryptedInput \<noteq> []"
  then show "decryptBtn_onclick E encryptedInput w = (ShownError NoIdentity, w)"
    by (simp add: decryptBtn_onclick_def decryptMessage_no_identity [OF assms])
next
  fix cs i
  assume h: "loadContacts E (storage w) = Inr (JArr cs) \<and> i < length cs
             \<and> cs ! i \<noteq> JNull \<and> trim E plainText \<noteq> []"
  then obtain r where "get_prop (Some (cs ! i)) ''publicKey'' = Inr r"
    using get_prop_not_null by blast
  with h show "encryptBtn_onclick E (Some i) plainText w
                 = (AlertError ''Encryption failed: '' NoIdentity, w)"
    by (simp add: encryptBtn_onclick_def encryptMessage_no_identity [OF assms])
qed

lemma newcomer_contacts:
  "loadContacts demo (storage newcomer) = Inr (JArr [contact_object ''Bob'' ''576c''])"
  by (simp add: loadContacts_def newcomer_def demo_def demo_parse_def contact_object_def)

theorem no_identity_fails_first_witness:
  "storage newcomer ''myKeys'' = None
   \<and> encryptMessage demo (Some (JStr ''576c'')) ''hello'' newcomer = (Inl NoIdentity, newcomer)
   \<and> decryptMessage demo ''0318:0f16:0f16af4647'' (storage newcomer) = Inl NoIdentity
   \<and> trim demo ''0318:0f16:0f16af4647'' \<noteq> []
   \<and> decryptBtn_onclick demo ''0318:0f16:0f16af4647'' newcomer = (ShownError NoIdentity, newcomer)
   \<and> loadContacts demo (storage newcomer) = Inr (JArr [contact_object ''Bob'' ''576c''])
   \<and> 0 < length [contact_object ''Bob'' ''576c'']
   \<and> [contact_object ''Bob'' ''576c''] ! 0 \<noteq> JNull \<and> trim demo ''hello'' \<noteq> []
   \<and> encryptBtn_onclick demo (Some 0) ''hello'' newcomer
       = (AlertError ''Encryption failed: '' NoIdentity, newcomer)"
proof -
  have absent: "storage newcomer ''myKeys'' = None"
    by (simp add: newcomer_def)
  note N = no_identity_fails_first
             [OF absent, where E = demo and recipient = "Some (JStr ''576c'')"
                and message = "''hello''" and token = "''0318:0f16:0f16af4647''"
                and encryptedInput = "''0318:0f16:0f16af4647''" and plainText = "''hello''"]
  have t: "trim demo ''0318:0f16:0f16af4647'' \<noteq> []"
    by (simp add: demo_def demo_trim_def is_space_def)
  have m: "trim demo ''hello'' \<noteq> []"
    by (simp add: demo_def demo_trim_def is_space_def)
  have i: "0 < length [contact_object ''Bob'' ''576c'']"
    by simp
  have e: "[contact_object ''Bob'' ''576c''] ! 0 \<noteq> JNull"
    by (simp add: contact_object_def)
  from N have enc: "encryptMessage demo (Some (JStr ''576c'')) ''hello'' newcomer
                      = (Inl NoIdentity, newcomer)"
    and dec: "decryptMessage demo ''0318:0f16:0f16af4647'' (storage newcomer) = Inl NoIdentity"
    by blast+
  from N t have shown: "decryptBtn_onclick demo ''0318:0f16:0f16af4647'' newcomer
                          = (ShownError NoIdentity, newcomer)"
    by blast
  from N newcomer_contacts i e m
  have alerted: "encryptBtn_onclick demo (Some 0) ''hello'' newcomer
                   = (AlertError ''Encryption failed: '' NoIdentity, newcomer)"
    by blast
  from absent enc dec t shown newcomer_contacts i e m alerted show ?thesis
    by (intro conjI)
qed

section \<open>Malformed tokens\<close>

lemma decryptMessage_not_three:
  assumes "loadMyKeys E st = Inr myKeys" and "truthy myKeys"
    and "length (js_split CHR '':'' t) \<noteq> 3"
  shows "decryptMessage E t st = Inl MalformedEnvelope"
  using assms
  by (auto simp: decryptMessage_def MalformedEnvelope_def split: list.splits)

lemma decryptMessage_three:
  assumes "loadMyKeys E st = Inr myKeys" and "truthy myKeys"
    and "js_split CHR '':'' t = [a, b, c]"
  shows "decryptMessage E t st =
           (case from_base64 E a of
              None \<Rightarrow> Inl SodiumError
            | Some senderPublicKey \<Rightarrow>
                (case from_base64 E b of
                   None \<Rightarrow> Inl SodiumError
                 | Some nonce \<Rightarrow>
                     (case from_base64 E c of
                        None \<Rightarrow> Inl SodiumError
                      | Some cipher \<Rightarrow>
                          (case (case get_prop (Some myKeys) ''privateKey'' of
                                   Inl e \<Rightarrow> None
                                 | Inr privateKeyBase64 \<Rightarrow>
                                     (case sodium_from_base64 E privateKeyBase64 of
                                        Inl e \<Rightarrow> None
                                      | Inr privateKey \<Rightarrow>
                                          (case crypto_box_open_easy E cipher nonce
                                                  senderPublicKey privateKey of
                                             None \<Rightarrow> None
                                           | Some plaintext \<Rightarrow> to_string E plaintext))) of
                             None \<Rightarrow> Inl DecryptionFailed
                           | Some text \<Rightarrow> Inr text))))"
  unfolding decryptMessage_def DecryptionFailed_def using assms by simp

lemma decryptMessage_three_not_malformed:
  assumes "loadMyKeys E st = Inr myKeys" and "truthy myKeys"
    and "js_split CHR '':'' t = [a, b, c]"
  shows "decryptMessage E t st \<noteq> Inl MalformedEnvelope"
  unfolding decryptMessage_three [OF assms]
  by (simp add: MalformedEnvelope_def DecryptionFailed_def split: option.splits sum.splits)

lemma length_three: "length xs = 3 \<Longrightarrow> \<exists>a b c. xs = [a, b, c]"
  by (cases xs; simp; cases "tl xs"; simp; cases "tl (tl xs)"; simp) 

text \<open>
  C3 (as the code has it).  On a device that holds an identity, \<open>decryptMessage\<close>
  fails with \<open>MalformedEnvelope\<close> exactly when splitting the token at the colons
  does not give three parts.  A token of three parts is never rejected as
  malformed: its fields go to the base64 decoder unchecked, an empty field like
  any other, and a field the decoder refuses fails with the decoder's own error.
\<close>

theorem malformed_iff_not_three_parts:
  assumes "loadMyKeys E st = Inr myKeys" and "truthy myKeys"
  shows "(decryptMessage E t st = Inl MalformedEnvelope) = (length (js_split CHR '':'' t) \<noteq> 3)
         \<and> (\<forall>a b c. js_split CHR '':'' t = [a, b, c]
                \<and> (from_base64 E a = None \<or> from_base64 E b = None \<or> from_base64 E c = None)
              \<longrightarrow> decryptMessage E t st = Inl SodiumError)"
proof (intro conjI allI impI)
  show "(decryptMessage E t st = Inl MalformedEnvelope) = (length (js_split CHR '':'' t) \<noteq> 3)"
  proof (cases "length (js_split CHR '':'' t) = 3")
    case True
    then obtain a b c where "js_split CHR '':'' t = [a, b, c]"
      using length_three by blast
    from decryptMessage_three_not_malformed [OF assms this] True show ?thesis by simp
  next
    case False
    from decryptMessage_not_three [OF assms this] False show ?thesis by simp
  qed
next
  fix a b c
  assume h: "js_split CHR '':'' t = [a, b, c]
             \<and> (from_base64 E a = None \<or> from_base64 E b = None \<or> from_base64 E c = None)"
  then have parts: "js_split CHR '':'' t = [a, b, c]" by simp
  from h show "decryptMessage E t st = Inl SodiumError"
    unfolding decryptMessage_three [OF assms parts] by (auto split: option.splits)
qed

lemma bob_keys_truthy:
  "loadMyKeys demo (storage bob) = Inr (keys_object ''576c'' ''1d24'')"
  "truthy (keys_object ''576c'' ''1d24'')"
  by (simp_all add: loadMyKeys_def bob_def demo_def demo_parse_def keys_object_def)

theorem malformed_iff_not_three_parts_witness:
  "loadMyKeys demo (storage bob) = Inr (keys_object ''576c'' ''1d24'')
   \<and> truthy (keys_object ''576c'' ''1d24'')
   \<and> js_split CHR '':'' ''03!8:0f16:0f16af4647'' = [''03!8'', ''0f16'', ''0f16af4647'']
   \<and> from_base64 demo ''03!8'' = None
   \<and> length (js_split CHR '':'' ''0318:0f16'') \<noteq> 3
   \<and> decryptMessage demo ''0318:0f16'' (storage bob) = Inl MalformedEnvelope
   \<and> decryptMessage demo ''03!8:0f16:0f16af4647'' (storage bob) = Inl SodiumError"
proof -
  have split: "js_split CHR '':'' ''03!8:0f16:0f16af4647'' = [''03!8'', ''0f16'', ''0f16af4647'']"
    by simp
  have bad: "from_base64 demo ''03!8'' = None"
    by (simp add: demo_def hex_value_def)
  have two: "length (js_split CHR '':'' ''0318:0f16'') \<noteq> 3"
    by simp
  from malformed_iff_not_three_parts [OF bob_keys_truthy, of "''0318:0f16''"] two
  have short: "decryptMessage demo ''0318:0f16'' (storage bob) = Inl MalformedEnvelope"
    by blast
  from malformed_iff_not_three_parts [OF bob_keys_truthy, of "''03!8:0f16:0f16af4647''"] split bad
  have refused: "decryptMessage demo ''03!8:0f16:0f16af4647'' (storage bob) = Inl SodiumError"
    by blast
  from bob_keys_truthy split bad two short refused show ?thesis by blast
qed

text \<open>
  The claim C3 as the specification states it fails: a token of three fields whose
  first field is not base64 is refused by the decoder, and a token with an empty
  nonce field is refused by the box; neither failure is \<open>MalformedEnvelope\<close>.
\<close>

theorem three_fields_not_malformed_counterexample:
  "decryptMessage demo ''03!8:0f16:0f16af4647'' (storage bob) = Inl SodiumError
   \<and> decryptMessage demo ''0318::0f16af4647'' (storage bob) = Inl DecryptionFailed
   \<and> SodiumError \<noteq> MalformedEnvelope \<and> DecryptionFailed \<noteq> MalformedEnvelope"
  by code_simp

section \<open>Failures of the box\<close>

text \<open>
  C2 (as the code has it).  On a device that holds an identity, for every token
  whose three fields decode: when the box refuses to open the decoded ciphertext,
  nonce and sender key under the local private key, \<open>decryptMessage\<close> fails with
  \<open>DecryptionFailed\<close>; no other failure is possible at that point, so a wrong
  recipient and a corrupted field are not told apart; and a plaintext is returned
  only when the box opened to it.
\<close>

theorem open_failure_is_opaque:
  assumes "loadMyKeys E st = Inr (keys_object pkText skText)"
    and "from_base64 E skText = Some sk"
    and "js_split CHR '':'' t = [a, b, c]"
    and "from_base64 E a = Some spk"
    and "from_base64 E b = Some n"
    and "from_base64 E c = Some ct"
  shows "(crypto_box_open_easy E ct n spk sk = None \<longrightarrow> decryptMessage E t st = Inl DecryptionFailed)
         \<and> (\<forall>e. decryptMessage E t st = Inl e \<longrightarrow> e = DecryptionFailed)
         \<and> (\<forall>p. decryptMessage E t st = Inr p \<longrightarrow>
               (\<exists>bs. crypto_box_open_easy E ct n spk sk = Some bs \<and> to_string E bs = Some p))"
  unfolding decryptMessage_parts [OF assms(1) assms(3) assms(4) assms(5) assms(6) assms(2)]
  by (auto split: option.splits)

lemma bob_identity_text:
  "loadMyKeys demo (storage bob) = Inr (keys_object ''576c'' ''1d24'')"
  by (rule bob_keys_truthy)

lemma bob_reads_hi:
  "decryptMessage demo ''0318:0f16:0f16af4647'' (storage bob) = Inr ''hi''"
  by code_simp

theorem open_failure_is_opaque_witness:
  "loadMyKeys demo (storage bob) = Inr (keys_object ''576c'' ''1d24'')
   \<and> from_base64 demo ''1d24'' = Some [29, 36]
   \<and> js_split CHR '':'' ''0318:0f16:0f16af4648'' = [''0318'', ''0f16'', ''0f16af4648'']
   \<and> from_base64 demo ''0318'' = Some [3, 24]
   \<and> from_base64 demo ''0f16'' = Some [15, 22]
   \<and> from_base64 demo ''0f16af4648'' = Some [15, 22, 175, 70, 72]
   \<and> crypto_box_open_easy demo [15, 22, 175, 70, 72] [15, 22] [3, 24] [29, 36] = None
   \<and> decryptMessage demo ''0318:0f16:0f16af4648'' (storage bob) = Inl DecryptionFailed
   \<and> js_split CHR '':'' ''0318:0f16:0f16af4647'' = [''0318'', ''0f16'', ''0f16af4647'']
   \<and> from_base64 demo ''0f16af4647'' = Some [15, 22, 175, 70, 71]
   \<and> decryptMessage demo ''0318:0f16:0f16af4647'' (storage bob) = Inr ''hi''
   \<and> (\<exists>bs. crypto_box_open_easy demo [15, 22, 175, 70, 71] [15, 22] [3, 24] [29, 36] = Some bs
          \<and> to_string demo bs = Some ''hi'')"
proof -
  have sk: "from_base64 demo ''1d24'' = Some [29, 36]"
    by (simp add: demo_def hex_value_def)
  have split: "js_split CHR '':'' ''0318:0f16:0f16af4648'' = [''0318'', ''0f16'', ''0f16af4648'']"
    by simp
  have a: "from_base64 demo ''0318'' = Some [3, 24]"
    by (simp add: demo_def hex_value_def)
  have b: "from_base64 demo ''0f16'' = Some [15, 22]"
    by (simp add: demo_def hex_value_def)
  have c: "from_base64 demo ''0f16af4648'' = Some [15, 22, 175, 70, 72]"
    by (simp add: demo_def hex_value_def)
  have refused: "crypto_box_open_easy demo [15, 22, 175, 70, 72] [15, 22] [3, 24] [29, 36] = None"
    by (simp add: demo_def demo_box_open_easy_def demo_shared_def)
  from open_failure_is_opaque [OF bob_identity_text sk split a b c] refused
  have failed: "decryptMessage demo ''0318:0f16:0f16af4648'' (storage bob) = Inl DecryptionFailed"
    by blast
  have split': "js_split CHR '':'' ''0318:0f16:0f16af4647'' = [''0318'', ''0f16'', ''0f16af4647'']"
    by simp
  have c': "from_base64 demo ''0f16af4647'' = Some [15, 22, 175, 70, 71]"
    by (simp add: demo_def hex_value_def)
  from open_failure_is_opaque [OF bob_identity_text sk split' a b c'] bob_reads_hi
  have opened: "\<exists>bs. crypto_box_open_easy demo [15, 22, 175, 70, 71] [15, 22] [3, 24] [29, 36]
                        = Some bs
                    \<and> to_string demo bs = Some ''hi''"
    by blast
  from bob_identity_text sk split a b c refused failed split' c' bob_reads_hi opened
  show ?thesis by (intro conjI)
qed

text \<open>
  The claim C2 as the specification states it fails.  The token
  \<open>0318:0f16:0f16af4647\<close> is valid for Bob.  Changing one byte of its sender-key
  field from \<open>1\<close> to \<open>!\<close> (one bit) makes the decoder refuse the field, and
  changing the byte \<open>8\<close> to a colon (one bit) makes a token of four parts: both
  fail, but not with \<open>DecryptionFailed\<close>.
\<close>

theorem tampered_field_counterexample:
  "decryptMessage demo ''0318:0f16:0f16af4647'' (storage bob) = Inr ''hi''
   \<and> decryptMessage demo ''03!8:0f16:0f16af4647'' (storage bob) = Inl SodiumError
   \<and> decryptMessage demo ''031::0f16:0f16af4647'' (storage bob) = Inl MalformedEnvelope
   \<and> SodiumError \<noteq> DecryptionFailed \<and> MalformedEnvelope \<noteq> DecryptionFailed"
  by code_simp

section \<open>Nonces\<close>

lemma randombytes_buf_drawn: "drawn (snd (randombytes_buf E n w)) = drawn w + n"
  by (simp add: randombytes_buf_def)










section \<open>Choosing the recipient\<close>

lemma get_prop_contact_object:
  "get_prop (Some (contact_object name key)) ''publicKey'' = Inr (Some (JStr key))"
  by (simp add: contact_object_def)

text \<open>
  C6 (as the code has it).  \<open>encryptBtn.onclick\<close> fails with \<open>InvalidRecipient\<close>
  when no recipient is selected.  An index beyond the stored list is not checked:
  with a message that is not blank, the missing contact raises a TypeError inside
  the \<open>try\<close> block, reported as a failed encryption.  For an index inside the list
  whose entry is a contact, the handler seals the trimmed message with that
  contact's public key and the local private key, under a nonce drawn for the
  call, and shows the token that starts with the local public key.
\<close>

theorem recipient_resolution:
  "encryptBtn_onclick E None plainText w = (InvalidRecipient, w)
   \<and> (\<forall>cs i. loadContacts E (storage w) = Inr (JArr cs) \<and> length cs \<le> i \<and> trim E plainText \<noteq> []
        \<longrightarrow> encryptBtn_onclick E (Some i) plainText w
              = (AlertError ''Encryption failed: '' TypeError, w))
   \<and> (\<forall>cs i name key pkText skText sk rpk c.
          loadContacts E (storage w) = Inr (JArr cs) \<and> i < length cs
        \<and> cs ! i = contact_object name key \<and> trim E plainText \<noteq> []
        \<and> loadMyKeys E (storage w) = Inr (keys_object pkText skText)
        \<and> from_base64 E skText = Some sk \<and> from_base64 E key = Some rpk
        \<and> crypto_box_easy E (from_string E (trim E plainText))
              (fst (randombytes_buf E (crypto_box_NONCEBYTES E) w)) rpk sk = Some c
        \<longrightarrow> encryptBtn_onclick E (Some i) plainText w
              = (Shown (pkText @ '':''
                        @ to_base64 E (fst (randombytes_buf E (crypto_box_NONCEBYTES E) w)) @ '':''
                        @ to_base64 E c),
                 snd (randombytes_buf E (crypto_box_NONCEBYTES E) w)))"
proof (intro conjI allI impI)
  show "encryptBtn_onclick E None plainText w = (InvalidRecipient, w)"
    by (simp add: encryptBtn_onclick_def InvalidRecipient_def)
next
  fix cs i
  assume "loadContacts E (storage w) = Inr (JArr cs) \<and> length cs \<le> i \<and> trim E plainText \<noteq> []"
  then show "encryptBtn_onclick E (Some i) plainText w
              = (AlertError ''Encryption failed: '' TypeError, w)"
    by (simp add: encryptBtn_onclick_def)
next
  fix cs i name key pkText skText sk rpk c
  assume h: "loadContacts E (storage w) = Inr (JArr cs) \<and> i < length cs
        \<and> cs ! i = contact_object name key \<and> trim E plainText \<noteq> []
        \<and> loadMyKeys E (storage w) = Inr (keys_object pkText skText)
        \<and> from_base64 E skText = Some sk \<and> from_base64 E key = Some rpk
        \<and> crypto_box_easy E (from_string E (trim E plainText))
              (fst (randombytes_buf E (crypto_box_NONCEBYTES E) w)) rpk sk = Some c"
  then have enc: "encryptMessage E (Some (JStr key)) (trim E plainText) w
      = (Inr (pkText @ '':''
              @ to_base64 E (fst (randombytes_buf E (crypto_box_NONCEBYTES E) w)) @ '':''
              @ to_base64 E c),
         snd (randombytes_buf E (crypto_box_NONCEBYTES E) w))"
    by (elim conjE) (rule encryptMessage_sealed; assumption)
  from h show "encryptBtn_onclick E (Some i) plainText w
              = (Shown (pkText @ '':''
                        @ to_base64 E (fst (randombytes_buf E (crypto_box_NONCEBYTES E) w)) @ '':''
                        @ to_base64 E c),
                 snd (randombytes_buf E (crypto_box_NONCEBYTES E) w))"
    by (simp add: encryptBtn_onclick_def get_prop_contact_object enc)
qed

lemma alice_identity_text:
  "loadMyKeys demo (storage alice) = Inr (keys_object ''0318'' ''0108'')"
  by (simp add: loadMyKeys_def alice_def demo_def demo_parse_def keys_object_def)

theorem recipient_resolution_witness:
  "loadContacts demo (storage alice) = Inr (JArr [contact_object ''Bob'' ''576c''])
   \<and> length [contact_object ''Bob'' ''576c''] \<le> 5 \<and> trim demo '' hello '' \<noteq> []
   \<and> encryptBtn_onclick demo (Some 5) '' hello '' alice
       = (AlertError ''Encryption failed: '' TypeError, alice)
   \<and> encryptBtn_onclick demo None '' hello '' alice = (InvalidRecipient, alice)
   \<and> 0 < length [contact_object ''Bob'' ''576c'']
   \<and> [contact_object ''Bob'' ''576c''] ! 0 = contact_object ''Bob'' ''576c''
   \<and> loadMyKeys demo (storage alice) = Inr (keys_object ''0318'' ''0108'')
   \<and> from_base64 demo ''0108'' = Some [1, 8] \<and> from_base64 demo ''576c'' = Some [87, 108]
   \<and> crypto_box_easy demo (from_string demo (trim demo '' hello ''))
        (fst (randombytes_buf demo (crypto_box_NONCEBYTES demo) alice)) [87, 108] [1, 8]
       = Some [15, 22, 242, 70, 67, 74, 74, 77]
   \<and> encryptBtn_onclick demo (Some 0) '' hello '' alice
       = (Shown (''0318'' @ '':''
                 @ to_base64 demo (fst (randombytes_buf demo (crypto_box_NONCEBYTES demo) alice))
                 @ '':'' @ to_base64 demo [15, 22, 242, 70, 67, 74, 74, 77]),
          snd (randombytes_buf demo (crypto_box_NONCEBYTES demo) alice))"
proof -
  note R = recipient_resolution [of demo "'' hello ''" alice]
  have t: "trim demo '' hello '' \<noteq> []"
    by (simp add: demo_def demo_trim_def is_space_def)
  have l: "length [contact_object ''Bob'' ''576c''] \<le> 5"
    by simp
  have far: "encryptBtn_onclick demo (Some 5) '' hello '' alice
       = (AlertError ''Encryption failed: '' TypeError, alice)"
    using R alice_contacts t l by blast
  have none: "encryptBtn_onclick demo None '' hello '' alice = (InvalidRecipient, alice)"
    using R by blast
  have i: "0 < length [contact_object ''Bob'' ''576c'']"
    by simp
  have e: "[contact_object ''Bob'' ''576c''] ! 0 = contact_object ''Bob'' ''576c''"
    by simp
  have sk: "from_base64 demo ''0108'' = Some [1, 8]"
    by (simp add: demo_def hex_value_def)
  have rpk: "from_base64 demo ''576c'' = Some [87, 108]"
    by (simp add: demo_def hex_value_def)
  have box: "crypto_box_easy demo (from_string demo (trim demo '' hello ''))
        (fst (randombytes_buf demo (crypto_box_NONCEBYTES demo) alice)) [87, 108] [1, 8]
       = Some [15, 22, 242, 70, 67, 74, 74, 77]"
    by code_simp
  have shown: "encryptBtn_onclick demo (Some 0) '' hello '' alice
       = (Shown (''0318'' @ '':''
                 @ to_base64 demo (fst (randombytes_buf demo (crypto_box_NONCEBYTES demo) alice))
                 @ '':'' @ to_base64 demo [15, 22, 242, 70, 67, 74, 74, 77]),
          snd (randombytes_buf demo (crypto_box_NONCEBYTES demo) alice))"
    by (rule R [THEN conjunct2, THEN conjunct2, rule_format,
          of "[contact_object ''Bob'' ''576c'']" 0 "''Bob''" "''576c''" "''0318''" "''0108''"
             "[1, 8]" "[87, 108]" "[15, 22, 242, 70, 67, 74, 74, 77]"])
       (intro conjI alice_contacts i e t alice_identity_text sk rpk box)
  from alice_contacts l t far none i e alice_identity_text sk rpk box shown
  show ?thesis by (intro conjI)
qed

text \<open>
  The claim C6 as the specification states it fails: Alice's device holds an
  identity and one contact, index 5 is out of range, and the handler reports a
  failed encryption with a TypeError, which is not \<open>InvalidRecipient\<close>; with a
  blank message it asks for a message instead.
\<close>

theorem out_of_range_index_counterexample:
  "loadMyKeys demo (storage alice) = Inr (keys_object ''0318'' ''0108'')
   \<and> loadContacts demo (storage alice) = Inr (JArr [contact_object ''Bob'' ''576c''])
   \<and> fst (encryptBtn_onclick demo (Some 5) ''hello'' alice)
       = AlertError ''Encryption failed: '' TypeError
   \<and> fst (encryptBtn_onclick demo (Some 5) ''  '' alice) = Alert ''Type a message first''
   \<and> AlertError ''Encryption failed: '' TypeError \<noteq> InvalidRecipient
   \<and> Alert ''Type a message first'' \<noteq> InvalidRecipient"
  by code_simp

section \<open>What the operations persist\<close>

lemma encryptMessage_storage: "storage (snd (encryptMessage E r m w)) = storage w"
  by (simp add: encryptMessage_def randombytes_buf_def split_beta
      split: sum.splits option.splits)

lemma encryptBtn_onclick_storage: "storage (snd (encryptBtn_onclick E i m w)) = storage w"
proof -
  have "\<And>r t. storage (snd (case encryptMessage E r t w of
                    (Inl e, w') \<Rightarrow> (AlertError ''Encryption failed: '' e, w')
                  | (Inr encrypted, w') \<Rightarrow> (Shown encrypted, w'))) = storage w"
    using encryptMessage_storage [of E _ _ w]
    by (auto split: prod.splits sum.splits) (metis snd_conv)+
  then show ?thesis
    by (simp add: encryptBtn_onclick_def Let_def split: option.splits sum.splits)
qed

lemma decryptBtn_onclick_world: "snd (decryptBtn_onclick E t w) = w"
  by (simp add: decryptBtn_onclick_def Let_def split: sum.splits)

lemma addContactBtn_onclick_cases:
  assumes "addContactBtn_onclick E n k w = (out, w')"
  shows "(storage w' = storage w \<and> drawn w' = drawn w \<and> out \<noteq> Rendered)
         \<or> (\<exists>cs. loadContacts E (storage w) = Inr (JArr cs)
               \<and> trim E n \<noteq> [] \<and> trim E k \<noteq> []
               \<and> storage w' = (storage w)(''contacts'' \<mapsto>
                     JSON_stringify E (JArr (cs @ [contact_object (trim E n) (trim E k)])))
               \<and> drawn w' = drawn w
               \<and> (case renderContacts E (storage w') of
                     Inl e \<Rightarrow> out = Uncaught e
                   | Inr u \<Rightarrow> out = Rendered))"
proof (cases "trim E n = [] \<or> trim E k = []")
  case True
  with assms show ?thesis by (auto simp: addContactBtn_onclick_def Let_def)
next
  case blank: False
  show ?thesis
  proof (cases "loadContacts E (storage w)")
    case (Inl e)
    with assms blank show ?thesis by (auto simp: addContactBtn_onclick_def Let_def)
  next
    case (Inr contacts)
    show ?thesis
    proof (cases "\<exists>cs. contacts = JArr cs")
      case False
      then have "js_push contacts (contact_object (trim E n) (trim E k)) = Inl TypeError"
        by (cases contacts) simp_all
      with assms blank Inr show ?thesis by (auto simp: addContactBtn_onclick_def Let_def)
    next
      case True
      then obtain cs where cs: "contacts = JArr cs" by blast
      show ?thesis
      proof (cases "storage_full E (storage w) ''contacts''
                      (JSON_stringify E (JArr (cs @ [contact_object (trim E n) (trim E k)])))")
        case True
        with assms blank Inr cs show ?thesis
          by (auto simp: addContactBtn_onclick_def Let_def saveContacts_def setItem_def)
      next
        case False
        with assms blank Inr cs show ?thesis
          by (auto simp: addContactBtn_onclick_def Let_def saveContacts_def setItem_def
              split: sum.splits)
      qed
    qed
  qed
qed

lemma scanQr_onDecoded_cases:
  assumes "scanQr_onDecoded E p d w = (out, w')"
  shows "(storage w' = storage w \<and> out \<noteq> Alert ''Contact added successfully!'')
         \<or> (\<exists>cs name. p = Some name \<and> name \<noteq> []
               \<and> loadContacts E (storage w) = Inr (JArr cs)
               \<and> storage w' = (storage w)(''contacts'' \<mapsto>
                     JSON_stringify E (JArr (cs @ [contact_object name d])))
               \<and> (case renderContacts E (storage w') of
                     Inl e \<Rightarrow> out = AlertError ''Failed to add contact: '' e
                   | Inr u \<Rightarrow> out = Alert ''Contact added successfully!''))"
proof (cases p)
  case None
  with assms show ?thesis by (auto simp: scanQr_onDecoded_def)
next
  case (Some name)
  show ?thesis
  proof (cases "name = []")
    case True
    with assms Some show ?thesis by (auto simp: scanQr_onDecoded_def)
  next
    case named: False
    show ?thesis
    proof (cases "loadContacts E (storage w)")
      case (Inl e)
      with assms Some named show ?thesis by (auto simp: scanQr_onDecoded_def)
    next
      case (Inr contacts)
      show ?thesis
      proof (cases "\<exists>cs. contacts = JArr cs")
        case False
        then have "js_push contacts (contact_object name d) = Inl TypeError"
          by (cases contacts) simp_all
        with assms Some named Inr show ?thesis by (auto simp: scanQr_onDecoded_def)
      next
        case True
        then obtain cs where cs: "contacts = JArr cs" by blast
        show ?thesis
        proof (cases "storage_full E (storage w) ''contacts''
                        (JSON_stringify E (JArr (cs @ [contact_object name d])))")
          case True
          with assms Some named Inr cs show ?thesis
            by (auto simp: scanQr_onDecoded_def saveContacts_def setItem_def)
        next
          case False
          with assms Some named Inr cs show ?thesis
            by (auto simp: scanQr_onDecoded_def saveContacts_def setItem_def
                split: sum.splits)
        qed
      qed
    qed
  qed
qed

text \<open>
  C7 (as the code has it).  \<open>encryptMessage\<close>, \<open>decryptMessage\<close> and their handlers
  never write to the store.  Adding a contact, by the button or by a scanned code,
  never touches the identity record, and when it fails the contact list is as it
  was before the call, unless the failure was raised by the re-rendering of the
  list: the store then holds the whole new list, the old entries followed by the
  new contact with its name and public key, and nothing else has changed.
\<close>

theorem failure_leaves_store:
  "storage (snd (encryptMessage E r m w)) = storage w
   \<and> storage (snd (encryptBtn_onclick E i m w)) = storage w
   \<and> snd (decryptBtn_onclick E t w) = w
   \<and> (\<forall>out w'. addContactBtn_onclick E n k w = (out, w') \<longrightarrow>
         storage w' ''myKeys'' = storage w ''myKeys''
         \<and> (out \<noteq> Rendered \<longrightarrow>
               storage w' = storage w
               \<or> (\<exists>e cs. out = Uncaught e
                      \<and> loadContacts E (storage w) = Inr (JArr cs)
                      \<and> storage w' = (storage w)(''contacts'' \<mapsto>
                            JSON_stringify E
                              (JArr (cs @ [JObj [(''name'', JStr (trim E n)),
                                                 (''publicKey'', JStr (trim E k))]])))
                      \<and> renderContacts E (storage w') = Inl e)))
   \<and> (\<forall>out w'. scanQr_onDecoded E p d w = (out, w') \<longrightarrow>
         storage w' ''myKeys'' = storage w ''myKeys''
         \<and> (out \<noteq> Alert ''Contact added successfully!'' \<longrightarrow>
               storage w' = storage w
               \<or> (\<exists>e cs name. out = AlertError ''Failed to add contact: '' e
                      \<and> p = Some name
                      \<and> loadContacts E (storage w) = Inr (JArr cs)
                      \<and> storage w' = (storage w)(''contacts'' \<mapsto>
                            JSON_stringify E
                              (JArr (cs @ [JObj [(''name'', JStr name),
                                                 (''publicKey'', JStr d)]])))
                      \<and> renderContacts E (storage w') = Inl e)))"
proof (intro conjI allI impI)
  show "storage (snd (encryptMessage E r m w)) = storage w"
    by (rule encryptMessage_storage)
  show "storage (snd (encryptBtn_onclick E i m w)) = storage w"
    by (rule encryptBtn_onclick_storage)
  show "snd (decryptBtn_onclick E t w) = w"
    by (rule decryptBtn_onclick_world)
next
  fix out w'
  assume "addContactBtn_onclick E n k w = (out, w')"
  from addContactBtn_onclick_cases [OF this]
  show "storage w' ''myKeys'' = storage w ''myKeys''"
    by auto
next
  fix out w'
  assume "addContactBtn_onclick E n k w = (out, w')" and "out \<noteq> Rendered"
  with addContactBtn_onclick_cases [of E n k w out w']
  show "storage w' = storage w
        \<or> (\<exists>e cs. out = Uncaught e
               \<and> loadContacts E (storage w) = Inr (JArr cs)
               \<and> storage w' = (storage w)(''contacts'' \<mapsto>
                     JSON_stringify E
                       (JArr (cs @ [JObj [(''name'', JStr (trim E n)),
                                          (''publicKey'', JStr (trim E k))]])))
               \<and> renderContacts E (storage w') = Inl e)"
    by (auto simp: contact_object_def split: sum.splits)
next
  fix out w'
  assume "scanQr_onDecoded E p d w = (out, w')"
  from scanQr_onDecoded_cases [OF this]
  show "storage w' ''myKeys'' = storage w ''myKeys''"
    by auto
next
  fix out w'
  assume "scanQr_onDecoded E p d w = (out, w')"
    and "out \<noteq> Alert ''Contact added successfully!''"
  with scanQr_onDecoded_cases [of E p d w out w']
  show "storage w' = storage w
        \<or> (\<exists>e cs name. out = AlertError ''Failed to add contact: '' e
               \<and> p = Some name
               \<and> loadContacts E (storage w) = Inr (JArr cs)
               \<and> storage w' = (storage w)(''contacts'' \<mapsto>
                     JSON_stringify E
                       (JArr (cs @ [JObj [(''name'', JStr name),
                                          (''publicKey'', JStr d)]])))
               \<and> renderContacts E (storage w') = Inl e)"
    by (auto simp: contact_object_def split: sum.splits)
qed

lemma validation_alert:
  "trim E n = [] \<or> trim E k = [] \<Longrightarrow> addContactBtn_onclick E n k w = (InvalidContact, w)"
  by (auto simp: addContactBtn_onclick_def InvalidContact_def)

lemma damaged_contacts: "loadContacts demo (storage damaged) = Inr (JArr [JNull])"
  by (simp add: loadContacts_def damaged_def demo_def demo_parse_def)

lemma damaged_run:
  "addContactBtn_onclick demo ''Bob'' ''576c'' damaged
     = (Uncaught TypeError,
        damaged\<lparr>storage := [''contacts'' \<mapsto>
                   demo_stringify (JArr [JNull, contact_object ''Bob'' ''576c''])]\<rparr>)"
  by (simp add: addContactBtn_onclick_def demo_trim_def is_space_def loadContacts_def demo_def
      demo_parse_def saveContacts_def setItem_def renderContacts_def contact_object_def
      damaged_def)

lemma damaged_scan:
  "scanQr_onDecoded demo (Some ''Bob'') ''576c'' damaged
     = (AlertError ''Failed to add contact: '' TypeError,
        damaged\<lparr>storage := [''contacts'' \<mapsto>
                   demo_stringify (JArr [JNull, contact_object ''Bob'' ''576c''])]\<rparr>)"
  by (simp add: scanQr_onDecoded_def loadContacts_def demo_def
      demo_parse_def saveContacts_def setItem_def renderContacts_def contact_object_def
      damaged_def)

theorem failure_leaves_store_witness:
  "addContactBtn_onclick demo ''Bob'' ''576c'' damaged
     = (Uncaught TypeError,
        damaged\<lparr>storage := [''contacts'' \<mapsto>
                   demo_stringify (JArr [JNull, contact_object ''Bob'' ''576c''])]\<rparr>)
   \<and> Uncaught TypeError \<noteq> Rendered
   \<and> scanQr_onDecoded demo (Some ''Bob'') ''576c'' damaged
       = (AlertError ''Failed to add contact: '' TypeError,
          damaged\<lparr>storage := [''contacts'' \<mapsto>
                     demo_stringify (JArr [JNull, contact_object ''Bob'' ''576c''])]\<rparr>)
   \<and> AlertError ''Failed to add contact: '' TypeError \<noteq> Alert ''Contact added successfully!''
   \<and> storage (damaged\<lparr>storage := [''contacts'' \<mapsto>
                 demo_stringify (JArr [JNull, contact_object ''Bob'' ''576c''])]\<rparr>)
       \<noteq> storage damaged
   \<and> storage (damaged\<lparr>storage := [''contacts'' \<mapsto>
                 demo_stringify (JArr [JNull, contact_object ''Bob'' ''576c''])]\<rparr>) ''myKeys''
       = storage damaged ''myKeys''
   \<and> loadContacts demo (storage damaged) = Inr (JArr [JNull])
   \<and> storage (damaged\<lparr>storage := [''contacts'' \<mapsto>
                 demo_stringify (JArr [JNull, contact_object ''Bob'' ''576c''])]\<rparr>)
       = (storage damaged)(''contacts'' \<mapsto>
            JSON_stringify demo
              (JArr ([JNull] @ [JObj [(''name'', JStr (trim demo ''Bob'')),
                                      (''publicKey'', JStr (trim demo ''576c''))]])))
   \<and> storage (damaged\<lparr>storage := [''contacts'' \<mapsto>
                 demo_stringify (JArr [JNull, contact_object ''Bob'' ''576c''])]\<rparr>)
       = (storage damaged)(''contacts'' \<mapsto>
            JSON_stringify demo
              (JArr ([JNull] @ [JObj [(''name'', JStr ''Bob''),
                                      (''publicKey'', JStr ''576c'')]])))
   \<and> renderContacts demo
        (storage (damaged\<lparr>storage := [''contacts'' \<mapsto>
                    demo_stringify (JArr [JNull, contact_object ''Bob'' ''576c''])]\<rparr>))
       = Inl TypeError"
proof -
  let ?D = "damaged\<lparr>storage := [''contacts'' \<mapsto>
              demo_stringify (JArr [JNull, contact_object ''Bob'' ''576c''])]\<rparr>"
  note F = failure_leaves_store
             [where E = demo and w = damaged and n = "''Bob''" and k = "''576c''"
                and p = "Some ''Bob''" and d = "''576c''"]
  note button = F [THEN conjunct2, THEN conjunct2, THEN conjunct2, THEN conjunct1,
                   rule_format, OF damaged_run]
  note scan = F [THEN conjunct2, THEN conjunct2, THEN conjunct2, THEN conjunct2,
                 rule_format, OF damaged_scan]
  have failed: "Uncaught TypeError \<noteq> Rendered"
    by simp
  have reported: "AlertError ''Failed to add contact: '' TypeError
                    \<noteq> Alert ''Contact added successfully!''"
    by simp
  have "storage ?D ''contacts'' \<noteq> storage damaged ''contacts''"
    by (simp add: damaged_def contact_object_def)
  then have changed: "storage ?D \<noteq> storage damaged"
    by (rule contrapos_nn) (erule arg_cong)
  from button have identity: "storage ?D ''myKeys'' = storage damaged ''myKeys''"
    by (rule conjunct1)
  from button [THEN conjunct2, rule_format, OF failed] changed
  obtain e cs where e: "Uncaught TypeError = Uncaught e"
    and cs: "loadContacts demo (storage damaged) = Inr (JArr cs)"
    and st: "storage ?D = (storage damaged)(''contacts'' \<mapsto>
                JSON_stringify demo
                  (JArr (cs @ [JObj [(''name'', JStr (trim demo ''Bob'')),
                                     (''publicKey'', JStr (trim demo ''576c''))]])))"
    and r: "renderContacts demo (storage ?D) = Inl e"
    by blast
  from cs have cs': "cs = [JNull]"
    by (simp only: damaged_contacts sum.inject json.inject)
  from e have e': "e = TypeError"
    by (simp only: outcome.inject)
  from st have whole: "storage ?D = (storage damaged)(''contacts'' \<mapsto>
                JSON_stringify demo
                  (JArr ([JNull] @ [JObj [(''name'', JStr (trim demo ''Bob'')),
                                          (''publicKey'', JStr (trim demo ''576c''))]])))"
    by (simp only: cs')
  from r have render: "renderContacts demo (storage ?D) = Inl TypeError"
    by (simp only: e')
  from scan [THEN conjunct2, rule_format, OF reported] changed
  obtain cs2 name where name: "Some ''Bob'' = Some name"
    and cs2: "loadContacts demo (storage damaged) = Inr (JArr cs2)"
    and st2: "storage ?D = (storage damaged)(''contacts'' \<mapsto>
                JSON_stringify demo
                  (JArr (cs2 @ [JObj [(''name'', JStr name), (''publicKey'', JStr ''576c'')]])))"
    by blast
  from cs2 have cs2': "cs2 = [JNull]"
    by (simp only: damaged_contacts sum.inject json.inject)
  from name have name': "name = ''Bob''"
    by (simp only: option.inject)
  from st2 have scanned: "storage ?D = (storage damaged)(''contacts'' \<mapsto>
                JSON_stringify demo
                  (JArr ([JNull] @ [JObj [(''name'', JStr ''Bob''),
                                          (''publicKey'', JStr ''576c'')]])))"
    by (simp only: cs2' name')
  from damaged_run failed damaged_scan reported changed identity damaged_contacts
    whole scanned render
  show ?thesis by (intro conjI)
qed

text \<open>
  The claim C7 as the specification states it fails on a store whose contact list
  holds a \<open>null\<close> entry: \<open>addContactBtn.onclick\<close> appends and stores the new
  contact, and then the re-rendering of the list raises a TypeError, which leaves
  the handler uncaught.  The operation has failed and the stored list has changed.
  On the same store the callback for a scanned code reports that it failed to add
  the contact, after it has stored it.
\<close>

theorem failed_after_store_counterexample:
  "fst (addContactBtn_onclick demo ''Bob'' ''576c'' damaged) = Uncaught TypeError
   \<and> storage damaged ''contacts'' = Some ''[null]''
   \<and> storage (snd (addContactBtn_onclick demo ''Bob'' ''576c'' damaged)) ''contacts''
       = Some (demo_stringify (JArr [JNull, contact_object ''Bob'' ''576c'']))
   \<and> fst (scanQr_onDecoded demo (Some ''Bob'') ''576c'' damaged)
       = AlertError ''Failed to add contact: '' TypeError
   \<and> storage (snd (scanQr_onDecoded demo (Some ''Bob'') ''576c'' damaged)) ''contacts''
       = Some (demo_stringify (JArr [JNull, contact_object ''Bob'' ''576c'']))
   \<and> demo_stringify (JArr [JNull, contact_object ''Bob'' ''576c'']) \<noteq> ''[null]''"
  by (simp add: damaged_run damaged_scan) (simp add: damaged_def contact_object_def)

section \<open>The contact list\<close>

text \<open>
  C8.  When no contacts were ever stored, \<open>loadContacts\<close> returns the empty list
  (\<open>JSON.parse\<close> reads \<open>[]\<close> as the empty array).  After every successful
  \<open>addContactBtn.onclick\<close> the list that \<open>loadContacts\<close> returned before was an
  array, and \<open>loadContacts\<close> now returns that array, every entry in its place,
  with one entry appended at its end: the object whose \<open>name\<close> is the trimmed
  name input and whose \<open>publicKey\<close> is the trimmed key input (\<open>JSON.parse\<close>
  reads back what \<open>JSON.stringify\<close> wrote).
\<close>

theorem contacts_append_only:
  "(JSON_parse E ''[]'' = Some (JArr []) \<and> st ''contacts'' = None
      \<longrightarrow> loadContacts E st = Inr (JArr []))
   \<and> (addContactBtn_onclick E n k w = (Rendered, w')
      \<longrightarrow> (\<exists>cs. loadContacts E (storage w) = Inr (JArr cs)))
   \<and> (\<forall>cs. addContactBtn_onclick E n k w = (Rendered, w')
          \<and> loadContacts E (storage w) = Inr (JArr cs)
          \<and> JSON_stringify E (JArr (cs @ [JObj [(''name'', JStr (trim E n)), (''publicKey'', JStr (trim E k))]])) \<noteq> []
          \<and> JSON_parse E (JSON_stringify E (JArr (cs @ [JObj [(''name'', JStr (trim E n)), (''publicKey'', JStr (trim E k))]])))
              = Some (JArr (cs @ [JObj [(''name'', JStr (trim E n)), (''publicKey'', JStr (trim E k))]]))
      \<longrightarrow> loadContacts E (storage w')
            = Inr (JArr (cs @ [JObj [(''name'', JStr (trim E n)), (''publicKey'', JStr (trim E k))]])))"
proof (intro conjI allI impI)
  assume "JSON_parse E ''[]'' = Some (JArr []) \<and> st ''contacts'' = None"
  then show "loadContacts E st = Inr (JArr [])"
    by (simp add: loadContacts_def)
next
  assume "addContactBtn_onclick E n k w = (Rendered, w')"
  from addContactBtn_onclick_cases [OF this]
  show "\<exists>cs. loadContacts E (storage w) = Inr (JArr cs)"
    by auto
next
  fix cs
  assume h: "addContactBtn_onclick E n k w = (Rendered, w')
          \<and> loadContacts E (storage w) = Inr (JArr cs)
          \<and> JSON_stringify E (JArr (cs @ [JObj [(''name'', JStr (trim E n)), (''publicKey'', JStr (trim E k))]])) \<noteq> []
          \<and> JSON_parse E (JSON_stringify E (JArr (cs @ [JObj [(''name'', JStr (trim E n)), (''publicKey'', JStr (trim E k))]])))
              = Some (JArr (cs @ [JObj [(''name'', JStr (trim E n)), (''publicKey'', JStr (trim E k))]]))"
  then have run: "addContactBtn_onclick E n k w = (Rendered, w')" by simp
  from addContactBtn_onclick_cases [OF run] h
  have "storage w' = (storage w)(''contacts'' \<mapsto>
          JSON_stringify E (JArr (cs @ [JObj [(''name'', JStr (trim E n)), (''publicKey'', JStr (trim E k))]])))"
    by (auto simp: contact_object_def)
  with h show "loadContacts E (storage w')
            = Inr (JArr (cs @ [JObj [(''name'', JStr (trim E n)), (''publicKey'', JStr (trim E k))]]))"
    by (simp add: loadContacts_def)
qed

lemma alice_adds_carol:
  "addContactBtn_onclick demo '' Carol'' ''2d42 '' alice
     = (Rendered,
        alice\<lparr>storage := (storage alice)(''contacts'' \<mapsto>
                 demo_stringify (JArr [contact_object ''Bob'' ''576c'',
                                       contact_object ''Carol'' ''2d42'']))\<rparr>)"
  by (simp add: addContactBtn_onclick_def demo_def demo_trim_def is_space_def loadContacts_def demo_def
      demo_parse_def saveContacts_def setItem_def renderContacts_def contact_object_def
      keys_object_def alice_def)

theorem contacts_append_only_witness:
  "JSON_parse demo ''[]'' = Some (JArr []) \<and> storage bob ''contacts'' = None
   \<and> loadContacts demo (storage bob) = Inr (JArr [])
   \<and> addContactBtn_onclick demo '' Carol'' ''2d42 '' alice
       = (Rendered,
          alice\<lparr>storage := (storage alice)(''contacts'' \<mapsto>
                   demo_stringify (JArr [contact_object ''Bob'' ''576c'',
                                         contact_object ''Carol'' ''2d42'']))\<rparr>)
   \<and> (\<exists>cs. loadContacts demo (storage alice) = Inr (JArr cs))
   \<and> loadContacts demo (storage alice) = Inr (JArr [contact_object ''Bob'' ''576c''])
   \<and> JSON_stringify demo
         (JArr ([contact_object ''Bob'' ''576c'']
                @ [JObj [(''name'', JStr (trim demo '' Carol'')), (''publicKey'', JStr (trim demo ''2d42 ''))]])) \<noteq> []
   \<and> JSON_parse demo (JSON_stringify demo
         (JArr ([contact_object ''Bob'' ''576c'']
                @ [JObj [(''name'', JStr (trim demo '' Carol'')), (''publicKey'', JStr (trim demo ''2d42 ''))]])))
       = Some (JArr ([contact_object ''Bob'' ''576c'']
                     @ [JObj [(''name'', JStr (trim demo '' Carol'')), (''publicKey'', JStr (trim demo ''2d42 ''))]]))
   \<and> loadContacts demo
        (storage (alice\<lparr>storage := (storage alice)(''contacts'' \<mapsto>
                   demo_stringify (JArr [contact_object ''Bob'' ''576c'',
                                         contact_object ''Carol'' ''2d42'']))\<rparr>))
       = Inr (JArr ([contact_object ''Bob'' ''576c'']
                    @ [JObj [(''name'', JStr (trim demo '' Carol'')), (''publicKey'', JStr (trim demo ''2d42 ''))]]))"
proof -
  note A = contacts_append_only
             [where E = demo and st = "storage bob" and n = "'' Carol''" and k = "''2d42 ''"
                and w = alice
                and w' = "alice\<lparr>storage := (storage alice)(''contacts'' \<mapsto>
                   demo_stringify (JArr [contact_object ''Bob'' ''576c'',
                                         contact_object ''Carol'' ''2d42'']))\<rparr>"]
  have empty: "JSON_parse demo ''[]'' = Some (JArr [])"
    by (simp add: demo_def demo_parse_def)
  have absent: "storage bob ''contacts'' = None"
    by (simp add: bob_def)
  have printed: "JSON_stringify demo
         (JArr ([contact_object ''Bob'' ''576c'']
                @ [JObj [(''name'', JStr (trim demo '' Carol'')), (''publicKey'', JStr (trim demo ''2d42 ''))]])) \<noteq> []"
    by (simp add: demo_def)
  have reread: "JSON_parse demo (JSON_stringify demo
         (JArr ([contact_object ''Bob'' ''576c'']
                @ [JObj [(''name'', JStr (trim demo '' Carol'')), (''publicKey'', JStr (trim demo ''2d42 ''))]])))
       = Some (JArr ([contact_object ''Bob'' ''576c'']
                     @ [JObj [(''name'', JStr (trim demo '' Carol'')), (''publicKey'', JStr (trim demo ''2d42 ''))]]))"
    by (simp add: demo_def demo_parse_def contact_object_def demo_def demo_trim_def is_space_def)
  from A empty absent have first: "loadContacts demo (storage bob) = Inr (JArr [])"
    by blast
  from A alice_adds_carol alice_contacts printed reread
  have after: "loadContacts demo
        (storage (alice\<lparr>storage := (storage alice)(''contacts'' \<mapsto>
                   demo_stringify (JArr [contact_object ''Bob'' ''576c'',
                                         contact_object ''Carol'' ''2d42'']))\<rparr>))
       = Inr (JArr ([contact_object ''Bob'' ''576c'']
                    @ [JObj [(''name'', JStr (trim demo '' Carol'')), (''publicKey'', JStr (trim demo ''2d42 ''))]]))"
    by blast
  from A alice_adds_carol
  have array: "\<exists>cs. loadContacts demo (storage alice) = Inr (JArr cs)"
    by blast
  from empty absent first alice_adds_carol array alice_contacts printed reread after
  show ?thesis by (intro conjI)
qed

section \<open>Stored text that is not a record\<close>

lemma loadMyKeys_stored:
  "st ''myKeys'' = Some raw \<Longrightarrow> raw \<noteq> [] \<Longrightarrow>
   loadMyKeys E st = (case JSON_parse E raw of None \<Rightarrow> Inl SyntaxError | Some v \<Rightarrow> Inr v)"
  by (simp add: loadMyKeys_def)

lemma loadContacts_stored:
  "st ''contacts'' = Some raw \<Longrightarrow> raw \<noteq> [] \<Longrightarrow>
   loadContacts E st = (case JSON_parse E raw of None \<Rightarrow> Inl SyntaxError | Some v \<Rightarrow> Inr v)"
  by (simp add: loadContacts_def)

text \<open>
  C9 (as the code has it).  For a stored entry that is not empty, \<open>loadMyKeys\<close> and
  \<open>loadContacts\<close> return what \<open>JSON.parse\<close> makes of it: text that is not JSON
  fails with the parser's own SyntaxError, passed on as it is, and text that is
  JSON is returned as parsed, with no check that it is a key pair or a list of
  contacts.  The SyntaxError of a corrupt identity is what \<open>encryptMessage\<close> and
  \<open>decryptMessage\<close> fail with, and the SyntaxError of a corrupt contact list
  leaves the handlers for adding a contact and for encrypting uncaught.
\<close>

theorem stored_text_is_parsed_unchecked:
  "(storage w ''myKeys'' = Some raw \<and> raw \<noteq> []
      \<longrightarrow> loadMyKeys E (storage w)
            = (case JSON_parse E raw of None \<Rightarrow> Inl SyntaxError | Some v \<Rightarrow> Inr v))
   \<and> (storage w ''contacts'' = Some raw' \<and> raw' \<noteq> []
      \<longrightarrow> loadContacts E (storage w)
            = (case JSON_parse E raw' of None \<Rightarrow> Inl SyntaxError | Some v \<Rightarrow> Inr v))
   \<and> (storage w ''myKeys'' = Some raw \<and> raw \<noteq> [] \<and> JSON_parse E raw = None
      \<longrightarrow> encryptMessage E recipient message w = (Inl SyntaxError, w)
          \<and> decryptMessage E token (storage w) = Inl SyntaxError)
   \<and> (storage w ''contacts'' = Some raw' \<and> raw' \<noteq> [] \<and> JSON_parse E raw' = None
        \<and> trim E contactNameInput \<noteq> [] \<and> trim E contactKeyInput \<noteq> []
      \<longrightarrow> addContactBtn_onclick E contactNameInput contactKeyInput w = (Uncaught SyntaxError, w)
          \<and> encryptBtn_onclick E (Some i) plainText w = (Uncaught SyntaxError, w))"
proof (intro conjI impI)
  assume "storage w ''myKeys'' = Some raw \<and> raw \<noteq> []"
  then show "loadMyKeys E (storage w)
            = (case JSON_parse E raw of None \<Rightarrow> Inl SyntaxError | Some v \<Rightarrow> Inr v)"
    by (simp add: loadMyKeys_stored)
next
  assume "storage w ''contacts'' = Some raw' \<and> raw' \<noteq> []"
  then show "loadContacts E (storage w)
            = (case JSON_parse E raw' of None \<Rightarrow> Inl SyntaxError | Some v \<Rightarrow> Inr v)"
    by (simp add: loadContacts_stored)
next
  assume "storage w ''myKeys'' = Some raw \<and> raw \<noteq> [] \<and> JSON_parse E raw = None"
  then have bad: "loadMyKeys E (storage w) = Inl SyntaxError"
    by (simp add: loadMyKeys_stored)
  show "encryptMessage E recipient message w = (Inl SyntaxError, w)"
    by (simp add: encryptMessage_def bad)
  show "decryptMessage E token (storage w) = Inl SyntaxError"
    by (simp add: decryptMessage_def bad)
next
  assume h: "storage w ''contacts'' = Some raw' \<and> raw' \<noteq> [] \<and> JSON_parse E raw' = None
        \<and> trim E contactNameInput \<noteq> [] \<and> trim E contactKeyInput \<noteq> []"
  then have bad: "loadContacts E (storage w) = Inl SyntaxError"
    by (simp add: loadContacts_stored)
  from h show "addContactBtn_onclick E contactNameInput contactKeyInput w
                 = (Uncaught SyntaxError, w)"
    by (simp add: addContactBtn_onclick_def bad)
  show "encryptBtn_onclick E (Some i) plainText w = (Uncaught SyntaxError, w)"
    by (simp add: encryptBtn_onclick_def bad)
qed

theorem stored_text_is_parsed_unchecked_witness:
  "storage \<lparr>storage = [''myKeys'' \<mapsto> ''{'', ''contacts'' \<mapsto> ''5''], drawn = 0\<rparr> ''myKeys''
     = Some ''{''
   \<and> ''{'' \<noteq> [] \<and> JSON_parse demo ''{'' = None
   \<and> storage \<lparr>storage = [''myKeys'' \<mapsto> ''{'', ''contacts'' \<mapsto> ''5''], drawn = 0\<rparr> ''contacts''
       = Some ''5''
   \<and> ''5'' \<noteq> [] \<and> JSON_parse demo ''5'' = Some (JNum ''5'')
   \<and> loadMyKeys demo
        (storage \<lparr>storage = [''myKeys'' \<mapsto> ''{'', ''contacts'' \<mapsto> ''5''], drawn = 0\<rparr>)
       = Inl SyntaxError
   \<and> loadContacts demo
        (storage \<lparr>storage = [''myKeys'' \<mapsto> ''{'', ''contacts'' \<mapsto> ''5''], drawn = 0\<rparr>)
       = Inr (JNum ''5'')
   \<and> decryptMessage demo ''0318:0f16:0f16af4647''
        (storage \<lparr>storage = [''myKeys'' \<mapsto> ''{'', ''contacts'' \<mapsto> ''5''], drawn = 0\<rparr>)
       = Inl SyntaxError
   \<and> storage \<lparr>storage = [''contacts'' \<mapsto> ''{''], drawn = 0\<rparr> ''contacts'' = Some ''{''
   \<and> trim demo ''Bob'' \<noteq> [] \<and> trim demo ''576c'' \<noteq> []
   \<and> addContactBtn_onclick demo ''Bob'' ''576c'' \<lparr>storage = [''contacts'' \<mapsto> ''{''], drawn = 0\<rparr>
       = (Uncaught SyntaxError, \<lparr>storage = [''contacts'' \<mapsto> ''{''], drawn = 0\<rparr>)"
proof -
  let ?v = "\<lparr>storage = [''contacts'' \<mapsto> ''{''], drawn = 0\<rparr>"
  note U = stored_text_is_parsed_unchecked
             [where E = demo and w = ?v and raw' = "''{''"
                and contactNameInput = "''Bob''" and contactKeyInput = "''576c''"]
  have c2: "storage ?v ''contacts'' = Some ''{''"
    by simp
  have tn: "trim demo ''Bob'' \<noteq> []" and tk: "trim demo ''576c'' \<noteq> []"
    by (simp_all add: demo_def demo_trim_def is_space_def)
  let ?w = "\<lparr>storage = [''myKeys'' \<mapsto> ''{'', ''contacts'' \<mapsto> ''5''], drawn = 0\<rparr>"
  note T = stored_text_is_parsed_unchecked
             [where E = demo and w = ?w and raw = "''{''" and raw' = "''5''"
                and token = "''0318:0f16:0f16af4647''"]
  have k: "storage ?w ''myKeys'' = Some ''{''"
    by simp
  have c: "storage ?w ''contacts'' = Some ''5''"
    by simp
  have ne: "''{'' \<noteq> []" "''5'' \<noteq> []"
    by simp_all
  have p1: "JSON_parse demo ''{'' = None"
    by (simp add: demo_def demo_parse_def is_digit_def)
  have p2: "JSON_parse demo ''5'' = Some (JNum ''5'')"
    by (simp add: demo_def demo_parse_def is_digit_def)
  from T k ne(1)
  have "loadMyKeys demo (storage ?w)
          = (case JSON_parse demo ''{'' of None \<Rightarrow> Inl SyntaxError | Some v \<Rightarrow> Inr v)"
    by blast
  with p1 have l1: "loadMyKeys demo (storage ?w) = Inl SyntaxError"
    by simp
  from T c ne(2)
  have "loadContacts demo (storage ?w)
          = (case JSON_parse demo ''5'' of None \<Rightarrow> Inl SyntaxError | Some v \<Rightarrow> Inr v)"
    by blast
  with p2 have l2: "loadContacts demo (storage ?w) = Inr (JNum ''5'')"
    by simp
  from T k ne(1) p1
  have d: "decryptMessage demo ''0318:0f16:0f16af4647'' (storage ?w) = Inl SyntaxError"
    by blast
  from U c2 ne(1) p1 tn tk
  have u: "addContactBtn_onclick demo ''Bob'' ''576c'' ?v = (Uncaught SyntaxError, ?v)"
    by blast
  from k ne(1) p1 c ne(2) p2 l1 l2 d c2 tn tk u show ?thesis
    by (intro conjI)
qed

text \<open>
  The claim C9 as the specification states it fails: no loading function knows a
  condition for corrupt state.  The stored text \<open>{\<close> makes both fail with the
  SyntaxError of \<open>JSON.parse\<close>, and the stored text \<open>5\<close>, which is JSON but
  neither a key pair nor a contact list, is loaded without any failure.
\<close>

theorem corrupt_state_counterexample:
  "loadMyKeys demo [''myKeys'' \<mapsto> ''{''] = Inl SyntaxError
   \<and> loadContacts demo [''contacts'' \<mapsto> ''{''] = Inl SyntaxError
   \<and> loadMyKeys demo [''myKeys'' \<mapsto> ''5''] = Inr (JNum ''5'')
   \<and> loadContacts demo [''contacts'' \<mapsto> ''5''] = Inr (JNum ''5'')"
  by (simp add: loadMyKeys_def loadContacts_def demo_def demo_parse_def is_digit_def)

section \<open>Contacts from a scanned code\<close>

lemma scanQr_onDecoded_stored:
  assumes "name \<noteq> []" and "loadContacts E (storage w) = Inr (JArr cs)"
    and "\<not> storage_full E (storage w) ''contacts''
            (JSON_stringify E
               (JArr (cs @ [JObj [(''name'', JStr name), (''publicKey'', JStr decodedText)]])))"
  shows "storage (snd (scanQr_onDecoded E (Some name) decodedText w))
         = (storage w)(''contacts'' \<mapsto>
              JSON_stringify E
                (JArr (cs @ [JObj [(''name'', JStr name), (''publicKey'', JStr decodedText)]])))"
  using assms
  by (simp add: scanQr_onDecoded_def saveContacts_def setItem_def contact_object_def
      split: sum.splits)

text \<open>
  C10.  The callback for a scanned code stores, at the end of the contact list, the
  object whose \<open>name\<close> is the prompted name and whose \<open>publicKey\<close> is the decoded
  text exactly as it was scanned, whatever it is: nothing tests that it is not
  empty or that it is base64.  Only the prompted name is tested, and only for
  being absent or empty.  The manual path refuses a name or a key that is blank
  after trimming.
\<close>

theorem scan_adds_key_unvalidated:
  "(\<forall>cs. name \<noteq> [] \<and> loadContacts E (storage w) = Inr (JArr cs)
          \<and> \<not> storage_full E (storage w) ''contacts''
                (JSON_stringify E
                   (JArr (cs @ [JObj [(''name'', JStr name),
                                      (''publicKey'', JStr decodedText)]])))
      \<longrightarrow> storage (snd (scanQr_onDecoded E (Some name) decodedText w))
            = (storage w)(''contacts'' \<mapsto>
                 JSON_stringify E
                   (JArr (cs @ [JObj [(''name'', JStr name),
                                      (''publicKey'', JStr decodedText)]]))))
   \<and> scanQr_onDecoded E None decodedText w = (Alert ''Name required'', w)
   \<and> scanQr_onDecoded E (Some []) decodedText w = (Alert ''Name required'', w)
   \<and> (trim E contactNameInput = [] \<or> trim E contactKeyInput = []
      \<longrightarrow> addContactBtn_onclick E contactNameInput contactKeyInput w = (InvalidContact, w))"
proof (intro conjI allI impI)
  fix cs
  assume h: "name \<noteq> [] \<and> loadContacts E (storage w) = Inr (JArr cs)
          \<and> \<not> storage_full E (storage w) ''contacts''
                (JSON_stringify E
                   (JArr (cs @ [JObj [(''name'', JStr name),
                                      (''publicKey'', JStr decodedText)]])))"
  show "storage (snd (scanQr_onDecoded E (Some name) decodedText w))
            = (storage w)(''contacts'' \<mapsto>
                 JSON_stringify E
                   (JArr (cs @ [JObj [(''name'', JStr name),
                                      (''publicKey'', JStr decodedText)]])))"
    by (rule scanQr_onDecoded_stored) (simp_all add: h)
next
  show "scanQr_onDecoded E None decodedText w = (Alert ''Name required'', w)"
    by (simp add: scanQr_onDecoded_def)
  show "scanQr_onDecoded E (Some []) decodedText w = (Alert ''Name required'', w)"
    by (simp add: scanQr_onDecoded_def)
next
  assume "trim E contactNameInput = [] \<or> trim E contactKeyInput = []"
  then show "addContactBtn_onclick E contactNameInput contactKeyInput w = (InvalidContact, w)"
    by (rule validation_alert)
qed

theorem scan_adds_key_unvalidated_witness:
  "''Eve'' \<noteq> [] \<and> loadContacts demo (storage alice) = Inr (JArr [contact_object ''Bob'' ''576c''])
   \<and> \<not> storage_full demo (storage alice) ''contacts''
         (JSON_stringify demo
            (JArr ([contact_object ''Bob'' ''576c'']
                   @ [JObj [(''name'', JStr ''Eve''), (''publicKey'', JStr ''not base64!'')]])))
   \<and> from_base64 demo ''not base64!'' = None
   \<and> storage (snd (scanQr_onDecoded demo (Some ''Eve'') ''not base64!'' alice))
       = (storage alice)(''contacts'' \<mapsto>
            JSON_stringify demo
              (JArr ([contact_object ''Bob'' ''576c'']
                     @ [JObj [(''name'', JStr ''Eve''), (''publicKey'', JStr ''not base64!'')]])))
   \<and> \<not> storage_full demo (storage alice) ''contacts''
         (JSON_stringify demo
            (JArr ([contact_object ''Bob'' ''576c'']
                   @ [JObj [(''name'', JStr ''Eve''), (''publicKey'', JStr [])]])))
   \<and> storage (snd (scanQr_onDecoded demo (Some ''Eve'') [] alice))
       = (storage alice)(''contacts'' \<mapsto>
            JSON_stringify demo
              (JArr ([contact_object ''Bob'' ''576c'']
                     @ [JObj [(''name'', JStr ''Eve''), (''publicKey'', JStr [])]])))
   \<and> (trim demo ''Eve'' = [] \<or> trim demo [] = [])
   \<and> addContactBtn_onclick demo ''Eve'' [] alice = (InvalidContact, alice)"
proof -
  note S = scan_adds_key_unvalidated
             [where E = demo and w = alice and name = "''Eve''"
                and decodedText = "''not base64!''"]
  note S' = scan_adds_key_unvalidated
              [where E = demo and w = alice and name = "''Eve''" and decodedText = "[]"
                 and contactNameInput = "''Eve''" and contactKeyInput = "[]"]
  have name: "''Eve'' \<noteq> []"
    by simp
  have room: "\<not> storage_full demo (storage alice) ''contacts''
         (JSON_stringify demo
            (JArr ([contact_object ''Bob'' ''576c'']
                   @ [JObj [(''name'', JStr ''Eve''), (''publicKey'', JStr ''not base64!'')]])))"
    by (simp add: demo_def contact_object_def)
  have junk: "from_base64 demo ''not base64!'' = None"
    by (simp add: demo_def hex_value_def)
  have room': "\<not> storage_full demo (storage alice) ''contacts''
         (JSON_stringify demo
            (JArr ([contact_object ''Bob'' ''576c'']
                   @ [JObj [(''name'', JStr ''Eve''), (''publicKey'', JStr [])]])))"
    by (simp add: demo_def contact_object_def)
  have blank: "trim demo ''Eve'' = [] \<or> trim demo [] = []"
    by (simp add: demo_def demo_trim_def)
  from S [THEN conjunct1, rule_format, of "[contact_object ''Bob'' ''576c'']"]
    name alice_contacts room
  have stored: "storage (snd (scanQr_onDecoded demo (Some ''Eve'') ''not base64!'' alice))
       = (storage alice)(''contacts'' \<mapsto>
            JSON_stringify demo
              (JArr ([contact_object ''Bob'' ''576c'']
                     @ [JObj [(''name'', JStr ''Eve''), (''publicKey'', JStr ''not base64!'')]])))"
    by (simp only: simp_thms)
  from S' [THEN conjunct1, rule_format, of "[contact_object ''Bob'' ''576c'']"]
    name alice_contacts room'
  have stored': "storage (snd (scanQr_onDecoded demo (Some ''Eve'') [] alice))
       = (storage alice)(''contacts'' \<mapsto>
            JSON_stringify demo
              (JArr ([contact_object ''Bob'' ''576c'']
                     @ [JObj [(''name'', JStr ''Eve''), (''publicKey'', JStr [])]])))"
    by (simp only: simp_thms)
  from S' [THEN conjunct2, THEN conjunct2, THEN conjunct2, rule_format, OF blank]
  have refused: "addContactBtn_onclick demo ''Eve'' [] alice = (InvalidContact, alice)" .
  from name alice_contacts room junk stored room' stored' blank refused
  show ?thesis by (intro conjI)
qed

end
